theory Spec2Isabelle
  imports Main "HOL-Library.Sublist"
begin

section \<open>Errors, commands and the host\<close>

text \<open>
  A Go error is a value. \<open>Base m\<close> is an error made outside the files modelled here (by
  a library, the operating system or another package) whose \<open>Error()\<close> text is \<open>m\<close>:
  an \<open>*exec.ExitError\<close>, a parse error, a file error. \<open>Wrap ps e\<close> is \<open>errors.Wrap(e, msg)\<close> or \<open>errors.Wrapf(e, format, args)\<close>:
  the message is kept as its pieces, a piece being literal text or an argument printed with
  the verb \<open>%q\<close>. \<open>New ps\<close> is \<open>errors.New\<close> or \<open>fmt.Errorf\<close>.
  \<open>FlagParsingError e f\<close> is the value of \<open>cobraext.FlagParsingError(e, f)\<close>, kept
  uninterpreted.
\<close>

datatype piece = Lit string | Quoted string

datatype flag_const =
    InterfaceFlagDescription
  | IPSubnetFlagName
  | StackOverlayNetworkNameFlagName
  | ManifestValueFlagName

datatype error =
    Base string
  | Wrap "piece list" error
  | New "piece list"
  | FlagParsingError error flag_const

text \<open>The text of an error; \<open>q\<close> is the rendering of the verb \<open>%q\<close> (\<open>strconv.Quote\<close>).\<close>

fun render :: "(string \<Rightarrow> string) \<Rightarrow> piece \<Rightarrow> string" where
  "render q (Lit s) = s"
| "render q (Quoted s) = q s"

fun error_text :: "(string \<Rightarrow> string) \<Rightarrow> error \<Rightarrow> string" where
  "error_text q (Base m) = m"
| "error_text q (Wrap ps e) = concat (map (render q) ps) @ '': '' @ error_text q e"
| "error_text q (New ps) = concat (map (render q) ps)"
| "error_text q (FlagParsingError e f) = error_text q e"

text \<open>
  An \<open>exec.Cmd\<close>: the argument vector (the binary first), the environment (\<open>None\<close> is
  the nil \<open>Env\<close>: the child inherits the parent's), and where the two output streams go.
  \<open>Unset\<close> is a nil writer (the stream is discarded), \<open>Buffer\<close> a \<open>bytes.Buffer\<close> of
  the caller (for standard output: the buffer of \<open>cmd.Output()\<close>), \<open>Console\<close> the
  process's own \<open>os.Stdout\<close> or \<open>os.Stderr\<close>.
\<close>

datatype sink = Unset | Buffer | Console

record command =
  cmd_args :: "string list"
  cmd_env :: "string list option"
  cmd_stdout :: sink
  cmd_stderr :: sink

record profile_options =
  po_Name :: string
  po_FromProfile :: string
  po_OverwriteExisting :: bool

text \<open>What a run does to the world, in order: the trace of a run is a list of events.\<close>

datatype event =
    E_exec command
  | E_create_profile profile_options
  | E_println string
  | E_clear_dir string
  | E_copy_all string string
  | E_compose_build

text \<open>
  What a child process did: \<open>exit_err\<close> is \<open>None\<close> when it exited with status 0 and
  otherwise the text of the error \<open>cmd.Run()\<close> returns; \<open>out\<close> and \<open>err\<close> are the bytes it
  wrote to standard output and standard error.
\<close>

record proc_result =
  exit_err :: "string option"
  out :: string
  err :: string

text \<open>
  The machine the program runs on: whether \<open>logger.IsDebugMode()\<close> holds, and what a
  command does given everything that has happened before it. \<open>logger.Debugf\<close> and
  \<open>logger.Error\<close> only write a log line and leave no event. The two \<open>json\<close> fields
  are \<open>json.Unmarshal\<close> at the two types the package decodes (\<open>Inl\<close> its error).
\<close>

record NetworkDescription =
  Containers :: "(string \<times> string) list"

record HealthLog =
  hl_Start :: string
  hl_ExitCode :: int
  hl_Output :: string

record Health =
  h_Status :: string
  h_Log :: "HealthLog list"

record ContainerDescription =
  cd_ID :: string
  cd_Status :: string
  cd_ExitCode :: int
  cd_Health :: "Health option"

record sys =
  IsDebugMode :: bool
  host :: "event list \<Rightarrow> command \<Rightarrow> proc_result"
  json_networks :: "string \<Rightarrow> string + NetworkDescription list"
  json_containers :: "string \<Rightarrow> string + ContainerDescription list"

definition docker :: "string list \<Rightarrow> command" where
  "docker args = \<lparr>cmd_args = ''docker'' # args, cmd_env = None, cmd_stdout = Unset, cmd_stderr = Unset\<rparr>"

text \<open>\<open>cmd.Run()\<close>: the command as configured is started; the result is its error.\<close>

definition Run :: "sys \<Rightarrow> command \<Rightarrow> event list \<Rightarrow> proc_result \<times> event list" where
  "Run s c tr = (host s tr c, tr @ [E_exec c])"

text \<open>\<open>cmd.Output()\<close>: standard output goes to a buffer, then as \<open>Run\<close>.\<close>

definition Output :: "sys \<Rightarrow> command \<Rightarrow> event list \<Rightarrow> proc_result \<times> event list" where
  "Output s c tr = Run s (c\<lparr>cmd_stdout := Buffer\<rparr>) tr"

text \<open>The contents of the buffer attached to standard error after the run, if one is attached.\<close>

definition errOutput :: "command \<Rightarrow> proc_result \<Rightarrow> string" where
  "errOutput c r = (if cmd_stderr c = Buffer then err r else [])"

section \<open>Bytes\<close>

text \<open>
  \<open>bytes.TrimSpace\<close> and \<open>bytes.Split\<close> are the Go standard library's; they are
  modelled from its source, with the functions of \<open>unicode/utf8\<close> and \<open>unicode\<close> they
  call. A byte is a \<open>char\<close>, its value \<open>byte c\<close>; a rune is a natural number.
\<close>

definition byte :: "char \<Rightarrow> nat" where
  "byte c = of_char c"

definition RuneSelf :: nat where
  "RuneSelf = 0x80"

definition RuneError :: nat where
  "RuneError = 0xFFFD"

definition UTFMax :: nat where
  "UTFMax = 4"

text \<open>
  \<open>utf8.DecodeRune\<close>: the first rune of \<open>p\<close> and its width in bytes. The table
  \<open>first\<close> of the library is written out: a first byte below \<open>0x80\<close> is the rune; one
  in \<open>0x80..0xC1\<close> or above \<open>0xF4\<close> is invalid; \<open>0xC2..0xDF\<close> starts two bytes,
  \<open>0xE0..0xEF\<close> three, \<open>0xF0..0xF4\<close> four. The second byte must lie in the accept
  range of the first (\<open>lo..hi\<close>), the others in \<open>0x80..0xBF\<close>. An invalid or short
  sequence is \<open>(RuneError, 1)\<close>.
\<close>

definition DecodeRune :: "string \<Rightarrow> nat \<times> nat" where
  "DecodeRune p =
     (let n = length p
      in if n < 1 then (RuneError, 0)
         else
     (let p0 = byte (p ! 0)
      in if p0 < 0x80 then (p0, 1)
         else if p0 < 0xC2 \<or> 0xF4 < p0 then (RuneError, 1)
         else
     (let sz = (if p0 < 0xE0 then 2 else if p0 < 0xF0 then 3 else 4 :: nat);
          lo = (if p0 = 0xE0 then 0xA0 else if p0 = 0xF0 then 0x90 else 0x80 :: nat);
          hi = (if p0 = 0xED then 0x9F else if p0 = 0xF4 then 0x8F else 0xBF :: nat)
      in if n < sz then (RuneError, 1)
         else
     (let b1 = byte (p ! 1)
      in if b1 < lo \<or> hi < b1 then (RuneError, 1)
         else if sz \<le> 2 then ((p0 mod 0x20) * 0x40 + b1 mod 0x40, 2)
         else
     (let b2 = byte (p ! 2)
      in if b2 < 0x80 \<or> 0xBF < b2 then (RuneError, 1)
         else if sz \<le> 3 then ((p0 mod 0x10) * 0x1000 + (b1 mod 0x40) * 0x40 + b2 mod 0x40, 3)
         else
     (let b3 = byte (p ! 3)
      in if b3 < 0x80 \<or> 0xBF < b3 then (RuneError, 1)
         else ((p0 mod 0x08) * 0x40000 + (b1 mod 0x40) * 0x1000 + (b2 mod 0x40) * 0x40 + b3 mod 0x40,
               4)))))))"

text \<open>\<open>utf8.RuneStart\<close>: the byte is not a continuation byte (\<open>b & 0xC0 != 0x80\<close>).\<close>

definition RuneStart :: "char \<Rightarrow> bool" where
  "RuneStart b = (byte b div 0x40 \<noteq> 2)"

text \<open>
  \<open>utf8.DecodeLastRune\<close>: the last rune of \<open>p\<close> and its width. \<open>find_start\<close> is its
  loop, which walks back from \<open>start\<close> to a byte that starts a rune, not below \<open>lim\<close>;
  \<open>DecodeLastRune_start\<close> is the index the decoding starts at.
\<close>

function find_start :: "string \<Rightarrow> int \<Rightarrow> int \<Rightarrow> int" where
  "find_start p start lim =
     (if start \<ge> lim \<and> start \<ge> 0
      then (if RuneStart (p ! nat start) then start else find_start p (start - 1) lim)
      else start)"
  by pat_completeness auto
termination
  by (relation "measure (\<lambda>(p, start, lim). nat (start + 1))") auto

declare find_start.simps [simp del]

definition DecodeLastRune_start :: "string \<Rightarrow> int" where
  "DecodeLastRune_start p =
     (let end = int (length p);
          start = end - 1;
          lim = end - int UTFMax;
          lim = (if lim < 0 then 0 else lim);
          start = find_start p (start - 1) lim
      in if start < 0 then 0 else start)"

definition DecodeLastRune :: "string \<Rightarrow> nat \<times> nat" where
  "DecodeLastRune p =
     (let end = int (length p)
      in if end = 0 then (RuneError, 0)
         else
     (let r = byte (p ! nat (end - 1))
      in if r < RuneSelf then (r, 1)
         else
     (let start = DecodeLastRune_start p
      in case DecodeRune (drop (nat start) p) of
           (r, sz) \<Rightarrow> if start + int sz \<noteq> end then (RuneError, 1) else (r, sz))))"

text \<open>
  \<open>unicode.IsSpace\<close>: in Latin-1 the six ASCII spaces, U+0085 and U+00A0; beyond it the
  code points with the property White_Space.
\<close>

definition IsSpace :: "nat \<Rightarrow> bool" where
  "IsSpace r =
     (if r \<le> 0xFF
      then r \<in> {0x09, 0x0A, 0x0B, 0x0C, 0x0D, 0x20, 0x85, 0xA0}
      else r = 0x1680 \<or> (0x2000 \<le> r \<and> r \<le> 0x200A) \<or> r = 0x2028 \<or> r = 0x2029
           \<or> r = 0x202F \<or> r = 0x205F \<or> r = 0x3000)"

text \<open>
  The rune the loops of \<open>indexFunc\<close> and \<open>lastIndexFunc\<close> read: the byte itself when it
  is below \<open>RuneSelf\<close>, the decoded rune otherwise.
\<close>

definition rune_at :: "string \<Rightarrow> nat \<Rightarrow> nat \<times> nat" where
  "rune_at s start =
     (let r = byte (s ! start)
      in if r \<ge> RuneSelf then DecodeRune (drop start s) else (r, 1))"

definition rune_before :: "string \<Rightarrow> nat \<Rightarrow> nat \<times> nat" where
  "rune_before s i =
     (let r = byte (s ! (i - 1))
      in if r \<ge> RuneSelf then DecodeLastRune (take i s) else (r, 1))"

text \<open>
  \<open>indexFunc\<close> and \<open>lastIndexFunc\<close> of package \<open>bytes\<close>: the index of the first
  (last) rune \<open>r\<close> with \<open>f r = truth\<close>, or \<open>-1\<close>. Each round moves by the width of a
  rune, which is at least one byte.
\<close>

function indexFunc_from :: "string \<Rightarrow> (nat \<Rightarrow> bool) \<Rightarrow> bool \<Rightarrow> nat \<Rightarrow> int" where
  "indexFunc_from s f truth start =
     (if start < length s
      then (let (r, wid) = rune_at s start
            in if f r = truth then int start else indexFunc_from s f truth (start + wid))
      else - 1)"
  by pat_completeness auto
termination
proof (relation "measure (\<lambda>(s, f, truth, start). length s - start)", goal_cases)
  case 1
  then show ?case by simp
next
  case (2 s f truth start x r wid)
  have size: "\<And>p. p \<noteq> [] \<Longrightarrow> 1 \<le> snd (DecodeRune p)"
    by (case_tac p) (auto simp: DecodeRune_def Let_def Suc_le_eq)
  have ne: "drop start s \<noteq> []" using 2 by simp
  have at: "rune_at s start = (r, wid)" using 2 by simp
  have "1 \<le> wid"
  proof (cases "byte (s ! start) \<ge> RuneSelf")
    case True
    then have "DecodeRune (drop start s) = (r, wid)" using at by (simp add: rune_at_def)
    then show ?thesis using size [OF ne] by simp
  next
    case False
    then show ?thesis using at by (simp add: rune_at_def)
  qed
  with 2 show ?case by simp
qed

declare indexFunc_from.simps [simp del]

function lastIndexFunc_from :: "string \<Rightarrow> (nat \<Rightarrow> bool) \<Rightarrow> bool \<Rightarrow> nat \<Rightarrow> int" where
  "lastIndexFunc_from s f truth i =
     (if i > 0 \<and> i \<le> length s
      then (let (r, sz) = rune_before s i;
                i = i - sz
            in if f r = truth then int i else lastIndexFunc_from s f truth i)
      else - 1)"
  by pat_completeness auto
termination
proof (relation "measure (\<lambda>(s, f, truth, i). i)", goal_cases)
  case 1
  then show ?case by simp
next
  case (2 s f truth i x r sz i')
  have size: "\<And>p. p \<noteq> [] \<Longrightarrow> 1 \<le> snd (DecodeRune p)"
    by (case_tac p) (auto simp: DecodeRune_def Let_def Suc_le_eq)
  have fs: "find_start q st lm \<le> st" for q st lm
  proof (induction q st lm rule: find_start.induct)
    case (1 p start lim)
    show ?case
    proof (cases "start \<ge> lim \<and> start \<ge> 0 \<and> \<not> RuneStart (p ! nat start)")
      case True
      then have "find_start p start lim = find_start p (start - 1) lim"
        by (subst find_start.simps) simp
      moreover have "find_start p (start - 1) lim \<le> start - 1" using 1 True by simp
      ultimately show ?thesis by simp
    next
      case False
      then have "find_start p start lim = start" by (subst find_start.simps) auto
      then show ?thesis by simp
    qed
  qed
  define p where "p = take i s"
  have ne: "p \<noteq> []" using 2 by (auto simp: p_def)
  then have len: "1 \<le> int (length p)" by (cases p) simp_all
  have "DecodeLastRune_start p = 0 \<or> DecodeLastRune_start p \<le> int (length p) - 1 - 1"
    unfolding DecodeLastRune_start_def Let_def using fs by auto
  then have st: "nat (DecodeLastRune_start p) < length p" using len by auto
  then have "drop (nat (DecodeLastRune_start p)) p \<noteq> []" by simp
  from size [OF this] have w: "1 \<le> snd (DecodeRune (drop (nat (DecodeLastRune_start p)) p))" .
  have last: "1 \<le> snd (DecodeLastRune p)"
    using ne w by (auto simp: DecodeLastRune_def Let_def split: prod.splits)
  have before: "rune_before s i = (r, sz)" using 2 by simp
  have "1 \<le> sz"
  proof (cases "byte (s ! (i - 1)) \<ge> RuneSelf")
    case True
    then have "DecodeLastRune p = (r, sz)" using before by (simp add: rune_before_def p_def)
    then show ?thesis using last by simp
  next
    case False
    then show ?thesis using before by (simp add: rune_before_def)
  qed
  with 2 show ?case by simp
qed

declare lastIndexFunc_from.simps [simp del]

definition indexFunc :: "string \<Rightarrow> (nat \<Rightarrow> bool) \<Rightarrow> bool \<Rightarrow> int" where
  "indexFunc s f truth = indexFunc_from s f truth 0"

definition lastIndexFunc :: "string \<Rightarrow> (nat \<Rightarrow> bool) \<Rightarrow> bool \<Rightarrow> int" where
  "lastIndexFunc s f truth = lastIndexFunc_from s f truth (length s)"

text \<open>\<open>bytes.TrimLeftFunc\<close>, \<open>bytes.TrimRightFunc\<close> and \<open>bytes.TrimFunc\<close>.\<close>

definition TrimLeftFunc :: "string \<Rightarrow> (nat \<Rightarrow> bool) \<Rightarrow> string" where
  "TrimLeftFunc s f =
     (let i = indexFunc s f False
      in if i = - 1 then [] else drop (nat i) s)"

definition TrimRightFunc :: "string \<Rightarrow> (nat \<Rightarrow> bool) \<Rightarrow> string" where
  "TrimRightFunc s f =
     (let i = lastIndexFunc s f False;
          i = (if i \<ge> 0 \<and> byte (s ! nat i) \<ge> RuneSelf
               then (case DecodeRune (drop (nat i) s) of (r, wid) \<Rightarrow> i + int wid)
               else i + 1)
      in take (nat i) s)"

definition TrimFunc :: "string \<Rightarrow> (nat \<Rightarrow> bool) \<Rightarrow> string" where
  "TrimFunc s f = TrimRightFunc (TrimLeftFunc s f) f"

text \<open>
  \<open>bytes.TrimSpace\<close>. The first loop skips the leading bytes of the table
  \<open>asciiSpace\<close> (tab, line feed, vertical tab, form feed, carriage return, space); the
  second, \<open>TrimSpace_stop\<close>, walks back from the end of what is left. As soon as either
  meets a byte that is not ASCII, the rest is trimmed rune by rune with \<open>unicode.IsSpace\<close>.
\<close>

definition asciiSpace :: "char \<Rightarrow> bool" where
  "asciiSpace c = (c \<in> {CHR 0x09, CHR 0x0A, CHR 0x0B, CHR 0x0C, CHR 0x0D, CHR 0x20})"

fun TrimSpace_stop :: "string \<Rightarrow> nat \<Rightarrow> string" where
  "TrimSpace_stop s 0 = []"
| "TrimSpace_stop s (Suc k) =
     (let c = s ! k
      in if byte c \<ge> RuneSelf then TrimFunc (take (Suc k) s) IsSpace
         else if \<not> asciiSpace c then take (Suc k) s
         else TrimSpace_stop s k)"

fun TrimSpace :: "string \<Rightarrow> string" where
  "TrimSpace [] = []"
| "TrimSpace (c # cs) =
     (if byte c \<ge> RuneSelf then TrimFunc (c # cs) IsSpace
      else if \<not> asciiSpace c then TrimSpace_stop (c # cs) (length (c # cs))
      else TrimSpace cs)"

declare TrimSpace.simps [simp del]
declare TrimSpace_stop.simps [simp del]

text \<open>
  \<open>bytes.Split\<close> with the one-byte separator the source passes: the pieces between the
  separators, one more than there are separators.
\<close>

fun Split :: "string \<Rightarrow> char \<Rightarrow> string list" where
  "Split [] sep = [[]]"
| "Split (c # cs) sep =
     (if c = sep then [] # Split cs sep
      else (case Split cs sep of [] \<Rightarrow> [[c]] | l # ls \<Rightarrow> (c # l) # ls))"

section \<open>internal/docker/docker.go\<close>

definition Pull_cmd :: "sys \<Rightarrow> string \<Rightarrow> command" where
  "Pull_cmd s img =
     (let cmd = docker [''pull'', img]
      in if IsDebugMode s then cmd\<lparr>cmd_stdout := Console, cmd_stderr := Console\<rparr> else cmd)"

definition Pull :: "sys \<Rightarrow> string \<Rightarrow> event list \<Rightarrow> error option \<times> event list" where
  "Pull s img tr =
     (let (r, tr') = Run s (Pull_cmd s img) tr
      in case exit_err r of
           Some m \<Rightarrow> (Some (Wrap [Lit ''running docker command failed''] (Base m)), tr')
         | None \<Rightarrow> (None, tr'))"

definition ContainerID_cmd :: "string \<Rightarrow> command" where
  "ContainerID_cmd containerName =
     (docker [''ps'', ''--filter'', ''name='' @ containerName, ''--format'', ''{{.ID}}''])
       \<lparr>cmd_stderr := Buffer\<rparr>"

definition ContainerID :: "sys \<Rightarrow> string \<Rightarrow> event list \<Rightarrow> (error + string) \<times> event list" where
  "ContainerID s containerName tr =
     (let cmd = ContainerID_cmd containerName;
          (r, tr') = Output s cmd tr
      in case exit_err r of
           Some m \<Rightarrow>
             (Inl (Wrap [Lit ''could not find '', Lit [CHR 0x22], Lit containerName, Lit [CHR 0x22],
                         Lit '' container (stderr='', Quoted (errOutput cmd r), Lit '')''] (Base m)), tr')
         | None \<Rightarrow>
             (let containerIDs = Split (TrimSpace (out r)) (CHR 0x0A)
              in if length containerIDs \<noteq> 1
                 then (Inl (New [Lit ''expected single '', Lit containerName, Lit '' container'']), tr')
                 else (Inr (containerIDs ! 0), tr')))"

definition InspectNetwork_cmd :: "string \<Rightarrow> command" where
  "InspectNetwork_cmd network = (docker [''network'', ''inspect'', network])\<lparr>cmd_stderr := Buffer\<rparr>"

definition InspectNetwork ::
  "sys \<Rightarrow> string \<Rightarrow> event list \<Rightarrow> (error + NetworkDescription list) \<times> event list" where
  "InspectNetwork s network tr =
     (let cmd = InspectNetwork_cmd network;
          (r, tr') = Output s cmd tr
      in case exit_err r of
           Some m \<Rightarrow>
             (Inl (Wrap [Lit ''could not inspect the network (stderr='', Quoted (errOutput cmd r),
                         Lit '')''] (Base m)), tr')
         | None \<Rightarrow>
             (case json_networks s (out r) of
                Inl m \<Rightarrow>
                  (Inl (Wrap [Lit ''can't unmarshal network inspect for '', Lit network,
                              Lit '' (stderr='', Quoted (errOutput cmd r), Lit '')''] (Base m)), tr')
              | Inr networkDescriptions \<Rightarrow> (Inr networkDescriptions, tr')))"

definition ConnectToNetwork_cmd :: "string \<Rightarrow> string \<Rightarrow> command" where
  "ConnectToNetwork_cmd containerID network =
     (docker [''network'', ''connect'', network, containerID])\<lparr>cmd_stderr := Buffer\<rparr>"

definition ConnectToNetwork :: "sys \<Rightarrow> string \<Rightarrow> string \<Rightarrow> event list \<Rightarrow> error option \<times> event list" where
  "ConnectToNetwork s containerID network tr =
     (let cmd = ConnectToNetwork_cmd containerID network;
          (r, tr') = Run s cmd tr
      in case exit_err r of
           Some m \<Rightarrow>
             (Some (Wrap [Lit ''could not attach container to the stack network (stderr='',
                          Quoted (errOutput cmd r), Lit '')''] (Base m)), tr')
         | None \<Rightarrow> (None, tr'))"

definition CreateNetwork_cmd :: "string \<Rightarrow> string \<Rightarrow> string list \<Rightarrow> command" where
  "CreateNetwork_cmd name driver arg =
     (let netcmd = [''network'', ''create'', ''--driver'', driver];
          netcmd = (if length arg > 0 then netcmd @ arg else netcmd);
          netcmd = netcmd @ [name]
      in (docker netcmd)\<lparr>cmd_stderr := Buffer\<rparr>)"

definition CreateNetwork ::
  "sys \<Rightarrow> string \<Rightarrow> string \<Rightarrow> string list \<Rightarrow> event list \<Rightarrow> error option \<times> event list" where
  "CreateNetwork s name driver arg tr =
     (let cmd = CreateNetwork_cmd name driver arg;
          (r, tr') = Run s cmd tr
      in case exit_err r of
           Some m \<Rightarrow>
             (Some (Wrap [Lit ''could not create stack network (stderr='', Quoted (errOutput cmd r),
                          Lit '')''] (Base m)), tr')
         | None \<Rightarrow> (None, tr'))"

text \<open>\<open>strings.Join\<close>.\<close>

fun Join :: "string list \<Rightarrow> string \<Rightarrow> string" where
  "Join [] sep = []"
| "Join [x] sep = x"
| "Join (x # y # ys) sep = x @ sep @ Join (y # ys) sep"

definition InspectContainers_cmd :: "string list \<Rightarrow> command" where
  "InspectContainers_cmd containerIDs = (docker ([''inspect''] @ containerIDs))\<lparr>cmd_stderr := Buffer\<rparr>"

definition InspectContainers ::
  "sys \<Rightarrow> string list \<Rightarrow> event list \<Rightarrow> (error + ContainerDescription list) \<times> event list" where
  "InspectContainers s containerIDs tr =
     (let cmd = InspectContainers_cmd containerIDs;
          (r, tr') = Output s cmd tr
      in case exit_err r of
           Some m \<Rightarrow>
             (Inl (Wrap [Lit ''could not inspect containers (stderr='', Quoted (errOutput cmd r),
                         Lit '')''] (Base m)), tr')
         | None \<Rightarrow>
             (case json_containers s (out r) of
                Inl m \<Rightarrow>
                  (Inl (Wrap [Lit ''can't unmarshal container inspect for '',
                              Lit (Join containerIDs '',''),
                              Lit '' (stderr='', Quoted (errOutput cmd r), Lit '')''] (Base m)), tr')
              | Inr containerDescriptions \<Rightarrow> (Inr containerDescriptions, tr')))"

definition Copy_cmd :: "string \<Rightarrow> string \<Rightarrow> string \<Rightarrow> command" where
  "Copy_cmd containerName containerPath localPath =
     (docker [''cp'', containerName @ '':'' @ containerPath, localPath])\<lparr>cmd_stderr := Buffer\<rparr>"

definition Copy :: "sys \<Rightarrow> string \<Rightarrow> string \<Rightarrow> string \<Rightarrow> event list \<Rightarrow> error option \<times> event list" where
  "Copy s containerName containerPath localPath tr =
     (let cmd = Copy_cmd containerName containerPath localPath;
          (r, tr') = Run s cmd tr
      in case exit_err r of
           Some m \<Rightarrow>
             (Some (Wrap [Lit ''could not copy files from the container (stderr='',
                          Quoted (errOutput cmd r), Lit '')''] (Base m)), tr')
         | None \<Rightarrow> (None, tr'))"

definition swarmJoinToken_cmd :: command where
  "swarmJoinToken_cmd = (docker [''swarm'', ''join-token'', ''worker''])\<lparr>cmd_stderr := Buffer\<rparr>"

definition swarmJoinToken :: "sys \<Rightarrow> event list \<Rightarrow> (error + string) \<times> event list" where
  "swarmJoinToken s tr =
     (let cmd = swarmJoinToken_cmd;
          (r, tr') = Output s cmd tr
      in case exit_err r of
           Some m \<Rightarrow>
             (Inl (Wrap [Lit ''unable to get join token (stderr='', Quoted (errOutput cmd r),
                         Lit '')''] (Base m)), tr')
         | None \<Rightarrow> (Inr (out r), tr'))"

definition SwarmInit_cmd :: "string \<Rightarrow> command" where
  "SwarmInit_cmd ift = (docker [''swarm'', ''init'', ''--advertise-addr'', ift])\<lparr>cmd_stderr := Buffer\<rparr>"

definition SwarmInit :: "sys \<Rightarrow> string \<Rightarrow> event list \<Rightarrow> (error + string) \<times> event list" where
  "SwarmInit s ift tr =
     (let cmd = SwarmInit_cmd ift;
          (r, tr') = Run s cmd tr
      in case exit_err r of
           Some m \<Rightarrow>
             (Inl (Wrap [Lit ''docker swarm init failed (stderr='', Quoted (errOutput cmd r),
                         Lit '')''] (Base m)), tr')
         | None \<Rightarrow>
             (case swarmJoinToken s tr' of
                (Inl e, tr'') \<Rightarrow> (Inl e, tr'')
              | (Inr joinToken, tr'') \<Rightarrow> (Inr joinToken, tr'')))"

definition SwarmLeave_cmd :: command where
  "SwarmLeave_cmd = (docker [''swarm'', ''leave'', ''--force''])\<lparr>cmd_stderr := Buffer\<rparr>"

definition SwarmLeave :: "sys \<Rightarrow> event list \<Rightarrow> error option \<times> event list" where
  "SwarmLeave s tr =
     (let cmd = SwarmLeave_cmd;
          (r, tr') = Run s cmd tr
      in case exit_err r of
           Some m \<Rightarrow>
             (Some (Wrap [Lit ''docker swarm leave failed (stderr='', Quoted (errOutput cmd r),
                          Lit '')''] (Base m)), tr')
         | None \<Rightarrow> (None, tr'))"

definition SwarmStackDown_cmd :: "sys \<Rightarrow> string \<Rightarrow> command" where
  "SwarmStackDown_cmd s stackName =
     (let cmd = docker [''stack'', ''rm'', stackName]
      in if IsDebugMode s then cmd\<lparr>cmd_stdout := Console, cmd_stderr := Console\<rparr> else cmd)"

definition SwarmStackDown :: "sys \<Rightarrow> string \<Rightarrow> event list \<Rightarrow> error option \<times> event list" where
  "SwarmStackDown s stackName tr =
     (let (r, tr') = Run s (SwarmStackDown_cmd s stackName) tr
      in (map_option Base (exit_err r), tr'))"

section \<open>Reporting standard error\<close>

text \<open>
  Whether an error carries the text \<open>t\<close> as an argument printed with \<open>%q\<close>, in its own
  message or in the message of an error it wraps.
\<close>

fun carries :: "error \<Rightarrow> string \<Rightarrow> bool" where
  "carries (Base m) t = False"
| "carries (Wrap ps e) t = (Quoted t \<in> set ps \<or> carries e t)"
| "carries (New ps) t = (Quoted t \<in> set ps)"
| "carries (FlagParsingError e f) t = carries e t"

text \<open>The error of a result that is an error or a value.\<close>

definition err_of :: "error + 'a \<Rightarrow> error option" where
  "err_of x = (case x of Inl e \<Rightarrow> Some e | Inr v \<Rightarrow> None)"

text \<open>
  Whether a call that runs the command \<open>c\<close> from the trace \<open>tr\<close> and ends with \<open>res\<close>
  reports standard error: a buffer is attached to the standard error of \<open>c\<close>, and when
  \<open>c\<close> fails the call ends right after it with an error that carries what \<open>c\<close> wrote to
  standard error.
\<close>

definition stderr_reported :: "sys \<Rightarrow> event list \<Rightarrow> command \<Rightarrow> error option \<times> event list \<Rightarrow> bool" where
  "stderr_reported s tr c res =
     (cmd_stderr c = Buffer \<and>
      (case exit_err (host s tr c) of
         None \<Rightarrow> True
       | Some m \<Rightarrow>
           snd res = tr @ [E_exec c] \<and>
           (case fst res of
              None \<Rightarrow> False
            | Some e \<Rightarrow> carries e (err (host s tr c)))))"

section \<open>cmd/stack_swarm.go\<close>

text \<open>
  What \<open>stackInit\<close> reads from outside the file: the values of its three flags
  (\<open>Inl\<close> the error of \<open>GetString\<close>), \<open>net.InterfaceByName\<close> and
  \<open>net.ParseCIDR\<close> (\<open>Some\<close> the text of the error, \<open>None\<close> when they succeed),
  the result of \<open>profile.CreateProfile\<close>, and the two profile names
  \<open>profile.SwarmProfile\<close> and \<open>profile.DefaultProfile\<close>.
\<close>

record init_env =
  flag_Interface :: "string + string"
  flag_IPSubnet :: "string + string"
  flag_OverlayNetworkName :: "string + string"
  InterfaceByName :: "string \<Rightarrow> string option"
  ParseCIDR :: "string \<Rightarrow> string option"
  CreateProfile :: "profile_options \<Rightarrow> string option"
  SwarmProfile :: string
  DefaultProfile :: string

definition createOverlayNetwork ::
  "init_env \<Rightarrow> sys \<Rightarrow> string \<Rightarrow> string \<Rightarrow> event list \<Rightarrow> error option \<times> event list" where
  "createOverlayNetwork env s networkName subnet tr =
     (case ParseCIDR env subnet of
        Some m \<Rightarrow> (Some (Wrap [Lit ''create overlay network failed''] (Base m)), tr)
      | None \<Rightarrow>
          (let overlayArgs = [''--subnet'', subnet, ''--attachable'']
           in CreateNetwork s networkName ''overlay'' overlayArgs tr))"

definition swarm_options :: "init_env \<Rightarrow> profile_options" where
  "swarm_options env =
     \<lparr>po_Name = SwarmProfile env, po_FromProfile = DefaultProfile env, po_OverwriteExisting = True\<rparr>"

definition stackInit :: "init_env \<Rightarrow> sys \<Rightarrow> event list \<Rightarrow> error option \<times> event list" where
  "stackInit env s tr =
     (case flag_Interface env of
        Inl m \<Rightarrow> (Some (FlagParsingError (Base m) InterfaceFlagDescription), tr)
      | Inr iftname \<Rightarrow>
     (case InterfaceByName env iftname of
        Some m \<Rightarrow>
          (Some (Wrap [Lit ''cannot create docker swarm without overlay network interface''] (Base m)), tr)
      | None \<Rightarrow>
     (case flag_IPSubnet env of
        Inl m \<Rightarrow> (Some (FlagParsingError (Base m) IPSubnetFlagName), tr)
      | Inr subnet \<Rightarrow>
     (case flag_OverlayNetworkName env of
        Inl m \<Rightarrow> (Some (FlagParsingError (Base m) StackOverlayNetworkNameFlagName), tr)
      | Inr overlayNetworkName \<Rightarrow>
     (let options = swarm_options env;
          tr1 = tr @ [E_create_profile options]
      in case CreateProfile env options of
           Some m \<Rightarrow> (Some (Wrap [Lit ''swarm profile creation has failed''] (Base m)), tr1)
         | None \<Rightarrow>
     (case SwarmInit s iftname tr1 of
        (Inl e, tr2) \<Rightarrow> (Some (Wrap [Lit ''docker swarm creation has failed''] e), tr2)
      | (Inr joinToken, tr2) \<Rightarrow>
     (case createOverlayNetwork env s overlayNetworkName subnet tr2 of
        (Some e, tr3) \<Rightarrow>
          (let (_, tr4) = SwarmLeave s tr3
           in (Some (Wrap [Lit ''cannot initialize swarm''] e), tr4))
      | (None, tr3) \<Rightarrow> (None, tr3 @ [E_println joinToken]))))))))"

definition swarmLeave :: "sys \<Rightarrow> event list \<Rightarrow> error option \<times> event list" where
  "swarmLeave s tr = SwarmLeave s tr"

text \<open>Whether a command is \<open>docker network create ...\<close>.\<close>

definition is_network_create :: "command \<Rightarrow> bool" where
  "is_network_create c = (take 3 (cmd_args c) = [''docker'', ''network'', ''create''])"

text \<open>The commands a trace holds, in order.\<close>

fun issued :: "event list \<Rightarrow> command list" where
  "issued [] = []"
| "issued (E_exec c # es) = c # issued es"
| "issued (e # es) = issued es"

section \<open>cmd/query.go\<close>

text \<open>
  A \<open>*ucfg.Config\<close> as the query reads it: the list \<open>cfg.FlattenedKeys(opts...)\<close> and
  the function \<open>cfg.String(name, 0, opts...)\<close> (\<open>Inl\<close> the text of its error). An entry
  of a directory listing (\<open>os.FileInfo\<close>) has a name and says whether it is a directory.
  An index out of range is a panic.
\<close>

record config =
  FlattenedKeys :: "string list"
  String0 :: "string \<Rightarrow> string + string"

record dir_entry =
  Name :: string
  IsDir :: bool

datatype panic = IndexOutOfRange

text \<open>
  What \<open>queryManifest\<close> reads from outside the file: \<open>./go.mod\<close> (\<open>Inl\<close> the error
  of \<open>os.Open\<close>, then \<open>Inl\<close> the error of \<open>ioutil.ReadAll\<close>, then the bytes),
  \<open>modfile.ModulePath\<close>, the two flags (the error of the key flag is dropped by the
  source), \<open>common.TrimStringSlice\<close>, \<open>ioutil.ReadDir\<close>, \<open>yaml.NewConfigWithFile\<close>
  and the constant \<open>packages.PackageManifestFile\<close>.
\<close>

record query_env =
  go_mod :: "string + (string + string)"
  ModulePath :: "string \<Rightarrow> string"
  flag_ManifestKey :: string
  flag_ManifestValue :: "string + string list"
  TrimStringSlice :: "string list \<Rightarrow> string list"
  ReadDir :: "string \<Rightarrow> string + dir_entry list"
  NewConfigWithFile :: "string \<Rightarrow> string + config"
  PackageManifestFile :: string

definition elasticIntegrations :: string where
  "elasticIntegrations = ''github.com/elastic/integrations''"

definition packagesDir :: string where
  "packagesDir = ''packages''"

text \<open>\<open>filepath.Join\<close> on clean, non-empty elements; \<open>filepath.Join(".", d)\<close> is \<open>d\<close>.\<close>

definition filepath_Join :: "string list \<Rightarrow> string" where
  "filepath_Join elems = Join (filter (\<lambda>e. e \<noteq> ''.'') elems) ''/''"

text \<open>The loop of \<open>queryPackageManifest\<close> over the flattened keys.\<close>

fun queryPackageManifest_range :: "string \<Rightarrow> string list \<Rightarrow> config \<Rightarrow> string list \<Rightarrow> panic + bool" where
  "queryPackageManifest_range key values cfg [] = Inr False"
| "queryPackageManifest_range key values cfg (f # fs) =
     (if key = f
      then (case String0 cfg f of
              Inl m \<Rightarrow> Inr False
            | Inr v \<Rightarrow>
                (case values of
                   [] \<Rightarrow> Inl IndexOutOfRange
                 | v0 # _ \<Rightarrow> if v = v0 then Inr True else Inr False))
      else queryPackageManifest_range key values cfg fs)"

definition queryPackageManifest :: "string \<Rightarrow> string list \<Rightarrow> config \<Rightarrow> panic + bool" where
  "queryPackageManifest key values cfg =
     (let flattenedKeys = FlattenedKeys cfg
      in queryPackageManifest_range key values cfg flattenedKeys)"

definition queryCheck :: "query_env \<Rightarrow> error option" where
  "queryCheck env =
     (case go_mod env of
        Inl m \<Rightarrow>
          Some (Wrap [Lit ''query must be executed from the integrations project root directory''] (Base m))
      | Inr (Inl m) \<Rightarrow> Some (Base m)
      | Inr (Inr b) \<Rightarrow>
          (let modulePath = ModulePath env b
           in if modulePath \<noteq> elasticIntegrations
              then Some (New [Lit ''query must be executed from the integrations project root directory''])
              else None))"

text \<open>The loop of \<open>queryManifest\<close> over the directory listing; the state is \<open>(skipped, found)\<close>.\<close>

fun queryManifest_range ::
  "query_env \<Rightarrow> string \<Rightarrow> string list \<Rightarrow> string \<Rightarrow> dir_entry list
     \<Rightarrow> string list \<times> string list \<Rightarrow> panic + string list \<times> string list" where
  "queryManifest_range env key values ppath [] (skipped, found) = Inr (skipped, found)"
| "queryManifest_range env key values ppath (pkg # pkgs) (skipped, found) =
     (if IsDir pkg
      then (let manifestFile = filepath_Join [ppath, Name pkg, PackageManifestFile env]
            in case NewConfigWithFile env manifestFile of
                 Inl m \<Rightarrow>
                   queryManifest_range env key values ppath pkgs (skipped @ [Name pkg @ '': '' @ m], found)
               | Inr cfg \<Rightarrow>
                   (case queryPackageManifest key values cfg of
                      Inl p \<Rightarrow> Inl p
                    | Inr True \<Rightarrow> queryManifest_range env key values ppath pkgs (skipped, found @ [Name pkg])
                    | Inr False \<Rightarrow> queryManifest_range env key values ppath pkgs (skipped, found)))
      else queryManifest_range env key values ppath pkgs (skipped, found))"

text \<open>
  \<open>cmd.Println(a, b)\<close> prints its operands with a space between them: the line of
  \<open>cmd.Println(" ", v)\<close> is two spaces and \<open>v\<close>.
\<close>

definition queryManifest :: "query_env \<Rightarrow> event list \<Rightarrow> panic + error option \<times> event list" where
  "queryManifest env tr =
     (case queryCheck env of
        Some e \<Rightarrow> Inr (Some e, tr)
      | None \<Rightarrow>
     (let key = flag_ManifestKey env
      in case flag_ManifestValue env of
           Inl m \<Rightarrow> Inr (Some (FlagParsingError (Base m) ManifestValueFlagName), tr)
         | Inr values0 \<Rightarrow>
     (let values = TrimStringSlice env values0;
          ppath = filepath_Join [''.'', packagesDir]
      in case ReadDir env ppath of
           Inl m \<Rightarrow> Inr (Some (Wrap [Lit ''cannot find package directories''] (Base m)), tr)
         | Inr pkgs \<Rightarrow>
     (case queryManifest_range env key values ppath pkgs ([], []) of
        Inl p \<Rightarrow> Inl p
      | Inr (skipped, found) \<Rightarrow>
     (let tr1 = (if length skipped > 0
                 then tr @ [E_println ''Skipped packages:''] @ map (\<lambda>v. E_println (''  '' @ v)) skipped
                 else tr)
      in if length found = 0
         then Inr (None, tr1 @ [E_println ''key with value not found in any packages''])
         else (let tr2 = (if length found > 0
                          then tr1 @ [E_println ''Packages:''] @ map (\<lambda>v. E_println (''  '' @ v)) found
                          else tr1)
               in Inr (None, tr2)))))))"

text \<open>
  The manifest of a package as the loop loads it, and the two lists in the words of the
  specification: the skipped entries are the directories whose manifest fails to load, each
  as its name, a colon and the error; the matched names are the directories whose manifest
  loads and matches, in the order of the listing.
\<close>

definition load_manifest :: "query_env \<Rightarrow> string \<Rightarrow> dir_entry \<Rightarrow> string + config" where
  "load_manifest env ppath pkg =
     NewConfigWithFile env (filepath_Join [ppath, Name pkg, PackageManifestFile env])"

definition spec_skipped :: "query_env \<Rightarrow> string \<Rightarrow> dir_entry list \<Rightarrow> string list" where
  "spec_skipped env ppath pkgs =
     concat (map (\<lambda>pkg. if IsDir pkg
                         then (case load_manifest env ppath pkg of
                                 Inl m \<Rightarrow> [Name pkg @ '': '' @ m]
                               | Inr cfg \<Rightarrow> [])
                         else []) pkgs)"

definition spec_matched :: "query_env \<Rightarrow> string \<Rightarrow> string list \<Rightarrow> string \<Rightarrow> dir_entry list \<Rightarrow> string list" where
  "spec_matched env key values ppath pkgs =
     map Name (filter (\<lambda>pkg. IsDir pkg \<and>
                         (case load_manifest env ppath pkg of
                            Inl m \<Rightarrow> False
                          | Inr cfg \<Rightarrow> queryPackageManifest key values cfg = Inr True)) pkgs)"

text \<open>Whether the manifest of a directory entry fails to load.\<close>

definition load_fails :: "query_env \<Rightarrow> string \<Rightarrow> dir_entry \<Rightarrow> bool" where
  "load_fails env ppath pkg = (IsDir pkg \<and> isl (load_manifest env ppath pkg))"

section \<open>The stack package: Deploy and stackDeploy\<close>

record Profile =
  SnapshotFile_path :: string
  ComposeEnvVars :: "string list"

record Options =
  SwarmMode :: bool
  StackName :: string
  StackVersion :: string
  Profile :: Profile

text \<open>
  What \<open>Deploy\<close> and \<open>stackDeploy\<close> call outside the file, each as its result (\<open>Inl\<close>
  or \<open>Some\<close> the text of the error): \<open>builder.FindBuildPackagesDirectory\<close> (the path
  and whether it was found), \<open>locations.NewLocationManager\<close> (the \<open>PackagesDir()\<close> of
  the manager), \<open>files.ClearDir\<close>, \<open>files.CopyAll\<close>, \<open>dockerComposeBuild\<close>,
  \<open>install.Configuration\<close> (the application configuration, as the function from a stack
  version to \<open>StackImageRefs(version).AsEnv()\<close>), \<open>stackVariantAsEnv\<close> and
  \<open>os.Environ\<close>. \<open>SnapshotFile_path\<close> of a profile is
  \<open>FetchPath(profile.SnapshotFile)\<close>.
\<close>

record stack_env =
  FindBuildPackagesDirectory :: "string + string \<times> bool"
  NewLocationManager :: "string + string"
  ClearDir :: "string \<Rightarrow> string option"
  CopyAll :: "string \<Rightarrow> string \<Rightarrow> string option"
  dockerComposeBuild :: "Options \<Rightarrow> string option"
  Configuration :: "string + (string \<Rightarrow> string list)"
  stackVariantAsEnv :: "string \<Rightarrow> string"
  Environ :: "string list"

text \<open>
  Modelled from the spec: the environment builder of the stack package (\<open>newEnvBuilder\<close>,
  \<open>withEnvs\<close>, \<open>withEnv\<close>, \<open>build\<close>) is not in the sources. The specification gives
  its policy: the variable sets are merged in the order of the calls by simple
  concatenation.
\<close>

record envBuilder =
  vars :: "string list"

definition newEnvBuilder :: envBuilder where
  "newEnvBuilder = \<lparr>vars = []\<rparr>"

definition withEnvs :: "envBuilder \<Rightarrow> string list \<Rightarrow> envBuilder" where
  "withEnvs eb envs = eb\<lparr>vars := vars eb @ envs\<rparr>"

definition withEnv :: "envBuilder \<Rightarrow> string \<Rightarrow> envBuilder" where
  "withEnv eb env = eb\<lparr>vars := vars eb @ [env]\<rparr>"

definition build :: "envBuilder \<Rightarrow> string list" where
  "build eb = vars eb"

definition stackDeploy_args :: "Options \<Rightarrow> string list" where
  "stackDeploy_args options =
     (let composeFile = SnapshotFile_path (Profile options)
      in [] @ [''stack''] @ [''deploy''] @ [''--compose-file''] @ [composeFile] @ [StackName options])"

definition stackDeploy :: "sys \<Rightarrow> stack_env \<Rightarrow> Options \<Rightarrow> event list \<Rightarrow> error option \<times> event list" where
  "stackDeploy s env options tr =
     (let args = stackDeploy_args options
      in case Configuration env of
           Inl m \<Rightarrow> (Some (Wrap [Lit ''can't read application configuration''] (Base m)), tr)
         | Inr appConfig \<Rightarrow>
             (let envs = build (withEnvs
                                 (withEnv
                                   (withEnvs newEnvBuilder (appConfig (StackVersion options)))
                                   (stackVariantAsEnv env (StackVersion options)))
                                 (ComposeEnvVars (Profile options)));
                  cmd = (docker args)\<lparr>cmd_env := Some (Environ env @ envs)\<rparr>;
                  cmd = (if IsDebugMode s then cmd\<lparr>cmd_stdout := Console, cmd_stderr := Console\<rparr>
                         else cmd);
                  (r, tr') = Run s cmd tr
              in (map_option Base (exit_err r), tr')))"

definition Deploy :: "sys \<Rightarrow> stack_env \<Rightarrow> Options \<Rightarrow> event list \<Rightarrow> error option \<times> event list" where
  "Deploy s env options tr =
     (case FindBuildPackagesDirectory env of
        Inl m \<Rightarrow> (Some (Wrap [Lit ''finding build packages directory failed''] (Base m)), tr)
      | Inr (buildPackagesPath, found) \<Rightarrow>
     (case NewLocationManager env of
        Inl m \<Rightarrow> (Some (Wrap [Lit ''locating stack packages directory failed''] (Base m)), tr)
      | Inr PackagesDir \<Rightarrow>
     (let tr1 = tr @ [E_clear_dir PackagesDir]
      in case ClearDir env PackagesDir of
           Some m \<Rightarrow> (Some (Wrap [Lit ''clearing package contents failed''] (Base m)), tr1)
         | None \<Rightarrow>
     (case (if found
            then (CopyAll env buildPackagesPath PackagesDir,
                  tr1 @ [E_println (''Custom build packages directory found: '' @ buildPackagesPath),
                         E_copy_all buildPackagesPath PackagesDir])
            else (None, tr1)) of
        (Some m, tr2) \<Rightarrow> (Some (Wrap [Lit ''copying package contents failed''] (Base m)), tr2)
      | (None, tr2) \<Rightarrow>
     (let tr3 = tr2 @ [E_println ''Packages from the following directories will be loaded into the package-registry:'',
                       E_println ''- built-in packages (package-storage:snapshot Docker image)''];
          tr4 = (if found then tr3 @ [E_println (''- '' @ buildPackagesPath)] else tr3);
          tr5 = tr4 @ [E_compose_build]
      in case dockerComposeBuild env options of
           Some m \<Rightarrow> (Some (Wrap [Lit ''building docker images failed''] (Base m)), tr5)
         | None \<Rightarrow>
     (case stackDeploy s env options tr5 of
        (Some e, tr6) \<Rightarrow> (Some (Wrap [Lit ''running docker stack deploy failed''] e), tr6)
      | (None, tr6) \<Rightarrow> (None, tr6)))))))"

text \<open>The directories a trace clears and the copies it makes, in order.\<close>

fun clears :: "event list \<Rightarrow> string list" where
  "clears [] = []"
| "clears (E_clear_dir d # es) = d # clears es"
| "clears (e # es) = clears es"

fun copies :: "event list \<Rightarrow> (string \<times> string) list" where
  "copies [] = []"
| "copies (E_copy_all a b # es) = (a, b) # copies es"
| "copies (e # es) = copies es"

text \<open>
  The events of \<open>Deploy\<close> up to and including the image build, when the directory lookup
  gave \<open>(src, found)\<close>, the packages directory is \<open>dst\<close>, and clearing and copying
  succeeded.
\<close>

definition Deploy_prepared :: "string \<Rightarrow> bool \<Rightarrow> string \<Rightarrow> event list" where
  "Deploy_prepared src found dst =
     [E_clear_dir dst]
     @ (if found then [E_println (''Custom build packages directory found: '' @ src), E_copy_all src dst]
        else [])
     @ [E_println ''Packages from the following directories will be loaded into the package-registry:'',
        E_println ''- built-in packages (package-storage:snapshot Docker image)'']
     @ (if found then [E_println (''- '' @ src)] else [])
     @ [E_compose_build]"

section \<open>Concrete machines\<close>

text \<open>A machine on which every command exits with status 0 and prints nothing.\<close>

definition quiet_host :: "event list \<Rightarrow> command \<Rightarrow> proc_result" where
  "quiet_host tr c = \<lparr>exit_err = None, out = [], err = []\<rparr>"

definition quiet_sys :: sys where
  "quiet_sys = \<lparr>IsDebugMode = False, host = quiet_host,
     json_networks = (\<lambda>b. Inl ''unexpected end of JSON input''),
     json_containers = (\<lambda>b. Inl ''unexpected end of JSON input'')\<rparr>"

text \<open>A machine on which every command exits with status 0 and prints \<open>text\<close>.\<close>

definition printing_host :: "string \<Rightarrow> event list \<Rightarrow> command \<Rightarrow> proc_result" where
  "printing_host text tr c = \<lparr>exit_err = None, out = text, err = []\<rparr>"

definition printing_sys :: "string \<Rightarrow> sys" where
  "printing_sys text = \<lparr>IsDebugMode = False, host = printing_host text,
     json_networks = (\<lambda>b. Inl ''unexpected end of JSON input''),
     json_containers = (\<lambda>b. Inl ''unexpected end of JSON input'')\<rparr>"

text \<open>
  A machine on which \<open>docker network create\<close> fails and every other command succeeds,
  \<open>swarm join-token\<close> printing a token.
\<close>

definition no_network_host :: "event list \<Rightarrow> command \<Rightarrow> proc_result" where
  "no_network_host tr c =
     (if is_network_create c
      then \<lparr>exit_err = Some ''exit status 1'', out = [],
             err = ''Error response from daemon: Pool overlaps with other one on this address space''\<rparr>
      else \<lparr>exit_err = None, out = ''SWMTKN-1-5k7c'', err = []\<rparr>)"

definition no_network_sys :: sys where
  "no_network_sys = \<lparr>IsDebugMode = False, host = no_network_host,
     json_networks = (\<lambda>b. Inl ''unexpected end of JSON input''),
     json_containers = (\<lambda>b. Inl ''unexpected end of JSON input'')\<rparr>"

text \<open>
  Two command lines of \<open>swarm init\<close>: the interface \<open>eth0\<close> exists, the flags parse,
  the profile is created; \<open>ParseCIDR\<close> accepts the subnet \<open>10.10.0.0/24\<close> only.
\<close>

definition cidr_only :: "string \<Rightarrow> string option" where
  "cidr_only subnet =
     (if subnet = ''10.10.0.0/24'' then None else Some (''invalid CIDR address: '' @ subnet))"

definition good_init_env :: init_env where
  "good_init_env = \<lparr>flag_Interface = Inr ''eth0'', flag_IPSubnet = Inr ''10.10.0.0/24'',
     flag_OverlayNetworkName = Inr ''elastic-package-stack-overlay'',
     InterfaceByName = (\<lambda>n. if n = ''eth0'' then None else Some ''route ip+net: no such network interface''),
     ParseCIDR = cidr_only, CreateProfile = (\<lambda>po. None),
     SwarmProfile = ''swarm'', DefaultProfile = ''default''\<rparr>"

definition bad_subnet_env :: init_env where
  "bad_subnet_env = good_init_env\<lparr>flag_IPSubnet := Inr ''10.10.0.0''\<rparr>"

text \<open>
  A checkout of the integrations repository with three package directories and a file:
  the manifest of \<open>a\<close> has \<open>foo.bar: x\<close>, that of \<open>b\<close> has \<open>foo.bar: y\<close>, that of
  \<open>broken\<close> does not parse.
\<close>

definition manifest_of :: "string \<Rightarrow> config" where
  "manifest_of v =
     \<lparr>FlattenedKeys = [''name'', ''foo.bar''],
      String0 = (\<lambda>k. if k = ''foo.bar'' then Inr v
                     else if k = ''name'' then Inr ''pkg''
                     else Inl (''missing field accessing '' @ k))\<rparr>"

definition manifests :: "string \<Rightarrow> string + config" where
  "manifests path =
     (if path = ''packages/a/manifest.yml'' then Inr (manifest_of ''x'')
      else if path = ''packages/b/manifest.yml'' then Inr (manifest_of ''y'')
      else if path = ''packages/broken/manifest.yml'' then Inl ''yaml: line 2: did not find expected key''
      else Inl (''open '' @ path @ '': no such file or directory''))"

definition dir_a :: dir_entry where "dir_a = \<lparr>Name = ''a'', IsDir = True\<rparr>"
definition dir_b :: dir_entry where "dir_b = \<lparr>Name = ''b'', IsDir = True\<rparr>"
definition dir_broken :: dir_entry where "dir_broken = \<lparr>Name = ''broken'', IsDir = True\<rparr>"

definition repo_env :: "dir_entry list \<Rightarrow> string list \<Rightarrow> query_env" where
  "repo_env pkgs values =
     \<lparr>go_mod = Inr (Inr ''module github.com/elastic/integrations''),
      ModulePath = drop 7,
      flag_ManifestKey = ''foo.bar'',
      flag_ManifestValue = Inr values,
      TrimStringSlice = map TrimSpace,
      ReadDir = (\<lambda>d. if d = ''packages'' then Inr pkgs else Inl (''open '' @ d @ '': no such file or directory'')),
      NewConfigWithFile = manifests,
      PackageManifestFile = ''manifest.yml''\<rparr>"

text \<open>The same checkout with a loader whose error has an empty text.\<close>

definition silent_env :: query_env where
  "silent_env = (repo_env [dir_broken] [''x''])\<lparr>NewConfigWithFile := (\<lambda>path. Inl [])\<rparr>"

text \<open>
  A deployment: the image references of the version give \<open>A=1\<close>, the variant gives
  \<open>B=2\<close>, the profile gives \<open>C=3\<close>, and the process has inherited \<open>PATH\<close> and
  \<open>HOME\<close>. The second environment has no custom build-packages directory.
\<close>

definition abc_options :: Options where
  "abc_options = \<lparr>SwarmMode = True, StackName = ''elastic'', StackVersion = ''7.14.0'',
     Profile = \<lparr>SnapshotFile_path = ''/home/u/.elastic-package/profiles/swarm/stack/snapshot.yml'',
                ComposeEnvVars = [''C=3'']\<rparr>\<rparr>"

definition abc_env :: stack_env where
  "abc_env = \<lparr>FindBuildPackagesDirectory = Inr (''/work/build/packages'', True),
     NewLocationManager = Inr ''/home/u/.elastic-package/stack/development'',
     ClearDir = (\<lambda>d. None), CopyAll = (\<lambda>a b. None), dockerComposeBuild = (\<lambda>opts. None),
     Configuration = Inr (\<lambda>version. [''A=1'']), stackVariantAsEnv = (\<lambda>version. ''B=2''),
     Environ = [''PATH=/usr/bin'', ''HOME=/home/u'']\<rparr>"

definition builtin_env :: stack_env where
  "builtin_env = abc_env\<lparr>FindBuildPackagesDirectory := Inr ([], False)\<rparr>"

text \<open>A machine on which every command fails, writing a diagnostic to standard error.\<close>

definition failing_host :: "event list \<Rightarrow> command \<Rightarrow> proc_result" where
  "failing_host tr c = \<lparr>exit_err = Some ''exit status 1'', out = [],
     err = ''Cannot connect to the Docker daemon''\<rparr>"

definition failing_sys :: "bool \<Rightarrow> sys" where
  "failing_sys debug = \<lparr>IsDebugMode = debug, host = failing_host,
     json_networks = (\<lambda>b. Inl ''unexpected end of JSON input''),
     json_containers = (\<lambda>b. Inl ''unexpected end of JSON input'')\<rparr>"

section \<open>Properties of the byte functions\<close>

lemma Split_length: "length (Split s sep) = Suc (count_list s sep)"
  by (induction s) (auto split: list.splits)

lemma Split_single: "sep \<notin> set s \<Longrightarrow> Split s sep = [s]"
  by (induction s) auto

lemma count_list_0: "(count_list s x = 0) = (x \<notin> set s)"
  by (induction s) auto

lemma TrimSpace_Nil: "TrimSpace [] = []"
  by (simp add: TrimSpace.simps)

text \<open>On ASCII text \<open>TrimSpace\<close> drops the leading and the trailing ASCII spaces.\<close>

lemma TrimSpace_stop_ascii:
  assumes "\<forall>c \<in> set s. byte c < 0x80"
  shows "k \<le> length s \<Longrightarrow> TrimSpace_stop s k = rev (dropWhile asciiSpace (rev (take k s)))"
proof (induction k)
  case 0
  then show ?case by (simp add: TrimSpace_stop.simps)
next
  case (Suc k)
  then have k: "k < length s" by simp
  then have a: "byte (s ! k) < 0x80" using assms by simp
  have t: "take (Suc k) s = take k s @ [s ! k]" using k by (rule take_Suc_conv_app_nth)
  show ?case
  proof (cases "asciiSpace (s ! k)")
    case True
    then show ?thesis using Suc a k by (simp add: t RuneSelf_def TrimSpace_stop.simps)
  next
    case False
    then show ?thesis using a by (simp add: t RuneSelf_def TrimSpace_stop.simps)
  qed
qed

lemma TrimSpace_ascii:
  "\<forall>c \<in> set s. byte c < 0x80 \<Longrightarrow>
   TrimSpace s = rev (dropWhile asciiSpace (rev (dropWhile asciiSpace s)))"
proof (induction s)
  case Nil
  then show ?case by (simp add: TrimSpace.simps)
next
  case (Cons c cs)
  show ?case
  proof (cases "asciiSpace c")
    case True
    then show ?thesis using Cons by (simp add: RuneSelf_def TrimSpace.simps)
  next
    case False
    have "TrimSpace_stop (c # cs) (length (c # cs)) = rev (dropWhile asciiSpace (rev (take (length (c # cs)) (c # cs))))"
      using Cons.prems by (intro TrimSpace_stop_ascii) simp_all
    then show ?thesis using False Cons.prems by (simp add: RuneSelf_def TrimSpace.simps)
  qed
qed

text \<open>The trimmed text is a contiguous piece of the text.\<close>

lemma TrimFunc_sublist: "sublist (TrimFunc s f) s"
proof -
  have l: "sublist (TrimLeftFunc s f) s"
    by (simp add: TrimLeftFunc_def Let_def)
  have "sublist (TrimRightFunc (TrimLeftFunc s f) f) (TrimLeftFunc s f)"
    by (simp add: TrimRightFunc_def Let_def)
  then show ?thesis
    unfolding TrimFunc_def using l by (rule sublist_order.order.trans)
qed

lemma TrimSpace_stop_sublist: "sublist (TrimSpace_stop s k) s"
proof (induction k)
  case 0
  then show ?case by (simp add: TrimSpace_stop.simps)
next
  case (Suc k)
  have "sublist (TrimFunc (take (Suc k) s) IsSpace) s"
    using TrimFunc_sublist [of "take (Suc k) s" IsSpace] sublist_take [of "Suc k" s]
    by (rule sublist_order.order.trans)
  then show ?case
    using Suc by (simp add: TrimSpace_stop.simps Let_def del: take_Suc_Cons)
qed

lemma TrimSpace_sublist: "sublist (TrimSpace s) s"
proof (induction s)
  case Nil
  then show ?case by (simp add: TrimSpace.simps)
next
  case (Cons c cs)
  have "sublist (TrimSpace cs) (c # cs)"
    using Cons by (simp add: sublist_Cons_right)
  then show ?case
    using TrimFunc_sublist [of "c # cs" IsSpace] TrimSpace_stop_sublist [of "c # cs" "length (c # cs)"]
    by (simp add: TrimSpace.simps)
qed

text \<open>The loops of \<open>indexFunc\<close> and \<open>lastIndexFunc\<close>, one round at a time.\<close>

lemma indexFunc_from_step:
  "indexFunc_from s f truth start =
     (if start < length s
      then (if f (fst (rune_at s start)) = truth then int start
            else indexFunc_from s f truth (start + snd (rune_at s start)))
      else - 1)"
  by (subst indexFunc_from.simps) (simp add: Let_def split: prod.splits)

lemma lastIndexFunc_from_step:
  "lastIndexFunc_from s f truth i =
     (if i > 0 \<and> i \<le> length s
      then (if f (fst (rune_before s i)) = truth then int (i - snd (rune_before s i))
            else lastIndexFunc_from s f truth (i - snd (rune_before s i)))
      else - 1)"
  by (subst lastIndexFunc_from.simps) (simp add: Let_def split: prod.splits)

lemma byte_values:
  "byte (CHR 0xC2) = 0xC2" "byte (CHR 0xA0) = 0xA0" "byte (CHR 0x0A) = 0x0A"
  "byte CHR ''a'' = 0x61" "byte CHR ''b'' = 0x62" "byte CHR ''c'' = 0x63"
  "byte CHR ''d'' = 0x64" "byte CHR ''e'' = 0x65" "byte CHR ''f'' = 0x66" "byte CHR ''x'' = 0x78"
  by (simp_all add: byte_def)

section \<open>Properties of internal/docker/docker.go\<close>

subsection \<open>Three outputs of the listing command, trimmed\<close>

text \<open>
  The output \<open>abc\<close>, line feed, no-break space (U+00A0, the bytes \<open>C2 A0\<close>), line feed:
  the second loop of \<open>TrimSpace\<close> meets the byte \<open>A0\<close> and hands over to \<open>TrimFunc\<close>,
  which removes the no-break space and the line feed before it.
\<close>

lemma nbsp_TrimSpace: "TrimSpace [CHR ''a'', CHR ''b'', CHR ''c'', CHR 0x0A, CHR 0xC2, CHR 0xA0, CHR 0x0A] = TrimFunc [CHR ''a'', CHR ''b'', CHR ''c'', CHR 0x0A, CHR 0xC2, CHR 0xA0] IsSpace"
  by (simp add: TrimSpace.simps TrimSpace_stop.simps asciiSpace_def RuneSelf_def byte_values)

lemma nbsp_TrimLeftFunc: "TrimLeftFunc [CHR ''a'', CHR ''b'', CHR ''c'', CHR 0x0A, CHR 0xC2, CHR 0xA0] IsSpace = [CHR ''a'', CHR ''b'', CHR ''c'', CHR 0x0A, CHR 0xC2, CHR 0xA0]"
  by (simp add: TrimLeftFunc_def indexFunc_def indexFunc_from_step rune_at_def RuneSelf_def
      IsSpace_def byte_values)

lemma nbsp_DecodeLastRune: "DecodeLastRune [CHR ''a'', CHR ''b'', CHR ''c'', CHR 0x0A, CHR 0xC2, CHR 0xA0] = (0xA0, 2)"
  by (simp add: DecodeLastRune_def DecodeLastRune_start_def find_start.simps RuneStart_def
      DecodeRune_def RuneSelf_def UTFMax_def Let_def byte_values)

lemma nbsp_lastIndexFunc: "lastIndexFunc [CHR ''a'', CHR ''b'', CHR ''c'', CHR 0x0A, CHR 0xC2, CHR 0xA0] IsSpace False = 2"
  by (simp add: lastIndexFunc_def lastIndexFunc_from_step rune_before_def nbsp_DecodeLastRune
      RuneSelf_def IsSpace_def byte_values)

lemma nbsp_TrimRightFunc: "TrimRightFunc [CHR ''a'', CHR ''b'', CHR ''c'', CHR 0x0A, CHR 0xC2, CHR 0xA0] IsSpace = ''abc''"
  by (simp add: TrimRightFunc_def nbsp_lastIndexFunc RuneSelf_def byte_values)

lemma nbsp_trimmed: "TrimSpace [CHR ''a'', CHR ''b'', CHR ''c'', CHR 0x0A, CHR 0xC2, CHR 0xA0, CHR 0x0A] = ''abc''"
  by (simp only: nbsp_TrimSpace TrimFunc_def nbsp_TrimLeftFunc nbsp_TrimRightFunc)

lemma two_lines_trimmed: "TrimSpace [CHR ''a'', CHR ''b'', CHR ''c'', CHR 0x0A, CHR ''d'', CHR ''e'', CHR ''f'', CHR 0x0A] = [CHR ''a'', CHR ''b'', CHR ''c'', CHR 0x0A, CHR ''d'', CHR ''e'', CHR ''f'']"
  by (simp add: TrimSpace.simps TrimSpace_stop.simps asciiSpace_def RuneSelf_def byte_values)

text \<open>
  C10. When the listing command exits with status 0, \<open>ContainerID\<close> returns the trimmed
  output when it holds no line feed, and the error otherwise: it returns an error exactly
  when the trimmed output splits into two or more lines, the lines being one more than the
  line feeds. On an empty output (no container has the name) the trimmed output splits
  into the single empty line, and the result is the empty string with no error. The trimmed
  output is a contiguous piece of the output; for an ASCII output it is the output without
  its leading and trailing ASCII spaces.
  The one command the call runs is \<open>docker ps --filter name=n --format {{.ID}}\<close>.
\<close>

theorem ContainerID_single_line:
  assumes ok: "exit_err (host s tr ((ContainerID_cmd n)\<lparr>cmd_stdout := Buffer\<rparr>)) = None"
  shows "(let r = host s tr ((ContainerID_cmd n)\<lparr>cmd_stdout := Buffer\<rparr>);
              t = TrimSpace (out r)
          in fst (ContainerID s n tr) =
               (if CHR 0x0A \<in> set t
                then Inl (New [Lit ''expected single '', Lit n, Lit '' container''])
                else Inr t)
           \<and> isl (fst (ContainerID s n tr)) = (2 \<le> length (Split t (CHR 0x0A)))
           \<and> length (Split t (CHR 0x0A)) = Suc (count_list t (CHR 0x0A))
           \<and> (out r = [] \<longrightarrow> Split t (CHR 0x0A) = [[]] \<and> fst (ContainerID s n tr) = Inr [])
           \<and> sublist t (out r)
           \<and> ((\<forall>c \<in> set (out r). byte c < 0x80) \<longrightarrow>
                t = rev (dropWhile asciiSpace (rev (dropWhile asciiSpace (out r)))))
           \<and> snd (ContainerID s n tr) =
               tr @ [E_exec \<lparr>cmd_args = [''docker'', ''ps'', ''--filter'', ''name='' @ n, ''--format'', ''{{.ID}}''],
                    cmd_env = None, cmd_stdout = Buffer, cmd_stderr = Buffer\<rparr>])"
proof -
  define r where "r = host s tr ((ContainerID_cmd n)\<lparr>cmd_stdout := Buffer\<rparr>)"
  define t where "t = TrimSpace (out r)"
  define ids where "ids = Split t (CHR 0x0A)"
  have len: "length ids = Suc (count_list t (CHR 0x0A))"
    unfolding ids_def by (rule Split_length)
  have res: "ContainerID s n tr =
     (if length ids \<noteq> 1 then Inl (New [Lit ''expected single '', Lit n, Lit '' container''])
      else Inr (ids ! 0), tr @ [E_exec ((ContainerID_cmd n)\<lparr>cmd_stdout := Buffer\<rparr>)])"
    using ok by (simp add: ContainerID_def Output_def Run_def Let_def r_def ids_def t_def)
  have one: "(length ids = 1) = (CHR 0x0A \<notin> set t)"
    using len count_list_0 [of t "CHR 0x0A"] by simp
  have a: "fst (ContainerID s n tr) =
               (if CHR 0x0A \<in> set t
                then Inl (New [Lit ''expected single '', Lit n, Lit '' container''])
                else Inr t)"
  proof (cases "CHR 0x0A \<in> set t")
    case True
    then show ?thesis using one by (simp add: res)
  next
    case False
    then have "ids = [t]" unfolding ids_def by (rule Split_single)
    then show ?thesis using False by (simp add: res)
  qed
  have b: "isl (fst (ContainerID s n tr)) = (2 \<le> length ids)"
    using len by (auto simp: res)
  have c: "out r = [] \<longrightarrow> ids = [[]] \<and> fst (ContainerID s n tr) = Inr []"
    by (auto simp: res ids_def t_def TrimSpace_Nil)
  have d: "(\<forall>c \<in> set (out r). byte c < 0x80) \<longrightarrow>
                t = rev (dropWhile asciiSpace (rev (dropWhile asciiSpace (out r))))"
    unfolding t_def using TrimSpace_ascii by blast
  have e: "snd (ContainerID s n tr) =
               tr @ [E_exec \<lparr>cmd_args = [''docker'', ''ps'', ''--filter'', ''name='' @ n, ''--format'', ''{{.ID}}''],
                    cmd_env = None, cmd_stdout = Buffer, cmd_stderr = Buffer\<rparr>]"
    by (simp add: res ContainerID_cmd_def docker_def)
  have f: "sublist t (out r)"
    unfolding t_def by (rule TrimSpace_sublist)
  show ?thesis
    unfolding Let_def r_def [symmetric] t_def [symmetric]
    using a b c d e f len by (simp add: ids_def)
qed

text \<open>
  Three runs: no output; the output with the no-break space, where the result is \<open>abc\<close>;
  and two lines, where the result is the error.
\<close>

theorem ContainerID_single_line_witness:
  "exit_err (host quiet_sys [] ((ContainerID_cmd ''elastic-agent'')\<lparr>cmd_stdout := Buffer\<rparr>)) = None
   \<and> fst (ContainerID quiet_sys ''elastic-agent'' []) = Inr []
   \<and> fst (ContainerID (printing_sys [CHR ''a'', CHR ''b'', CHR ''c'', CHR 0x0A, CHR 0xC2, CHR 0xA0, CHR 0x0A]) ''elastic-agent'' []) = Inr ''abc''
   \<and> fst (ContainerID (printing_sys [CHR ''a'', CHR ''b'', CHR ''c'', CHR 0x0A, CHR ''d'', CHR ''e'', CHR ''f'', CHR 0x0A]) ''elastic-agent'' []) =
         Inl (New [Lit ''expected single '', Lit ''elastic-agent'', Lit '' container''])"
proof -
  let ?c = "(ContainerID_cmd ''elastic-agent'')\<lparr>cmd_stdout := Buffer\<rparr>"
  have ok: "exit_err (host quiet_sys [] ?c) = None"
    and o: "out (host quiet_sys [] ?c) = []"
    by (simp_all add: quiet_sys_def quiet_host_def)
  have ok1: "exit_err (host (printing_sys [CHR ''a'', CHR ''b'', CHR ''c'', CHR 0x0A, CHR 0xC2, CHR 0xA0, CHR 0x0A]) [] ?c) = None"
    and o1: "out (host (printing_sys [CHR ''a'', CHR ''b'', CHR ''c'', CHR 0x0A, CHR 0xC2, CHR 0xA0, CHR 0x0A]) [] ?c) = [CHR ''a'', CHR ''b'', CHR ''c'', CHR 0x0A, CHR 0xC2, CHR 0xA0, CHR 0x0A]"
    by (simp_all add: printing_sys_def printing_host_def)
  have ok2: "exit_err (host (printing_sys [CHR ''a'', CHR ''b'', CHR ''c'', CHR 0x0A, CHR ''d'', CHR ''e'', CHR ''f'', CHR 0x0A]) [] ?c) = None"
    and o2: "out (host (printing_sys [CHR ''a'', CHR ''b'', CHR ''c'', CHR 0x0A, CHR ''d'', CHR ''e'', CHR ''f'', CHR 0x0A]) [] ?c) = [CHR ''a'', CHR ''b'', CHR ''c'', CHR 0x0A, CHR ''d'', CHR ''e'', CHR ''f'', CHR 0x0A]"
    by (simp_all add: printing_sys_def printing_host_def)
  have r0: "fst (ContainerID quiet_sys ''elastic-agent'' []) = Inr []"
    using ContainerID_single_line [OF ok] by (simp add: Let_def o)
  have r1: "fst (ContainerID (printing_sys [CHR ''a'', CHR ''b'', CHR ''c'', CHR 0x0A, CHR 0xC2, CHR 0xA0, CHR 0x0A]) ''elastic-agent'' []) = Inr ''abc''"
    using ContainerID_single_line [OF ok1] by (simp add: Let_def o1 nbsp_trimmed)
  have r2: "fst (ContainerID (printing_sys [CHR ''a'', CHR ''b'', CHR ''c'', CHR 0x0A, CHR ''d'', CHR ''e'', CHR ''f'', CHR 0x0A]) ''elastic-agent'' []) =
         Inl (New [Lit ''expected single '', Lit ''elastic-agent'', Lit '' container''])"
    using ContainerID_single_line [OF ok2] by (simp add: Let_def o2 two_lines_trimmed)
  show ?thesis using ok r0 r1 r2 by simp
qed

section \<open>Properties of cmd/stack_swarm.go\<close>



text \<open>
  C5. For every subnet string that \<open>net.ParseCIDR\<close> rejects, \<open>createOverlayNetwork\<close>
  returns an error (the parse error, wrapped) and leaves the trace as it was: no command is
  invoked, the network-create invocation is not reached.
\<close>

theorem createOverlayNetwork_bad_subnet:
  assumes "ParseCIDR env subnet = Some m"
  shows "createOverlayNetwork env s networkName subnet tr =
           (Some (Wrap [Lit ''create overlay network failed''] (Base m)), tr)
         \<and> issued (snd (createOverlayNetwork env s networkName subnet tr)) = issued tr"
  using assms by (simp add: createOverlayNetwork_def)

theorem createOverlayNetwork_bad_subnet_witness:
  "ParseCIDR bad_subnet_env ''10.10.0.0'' = Some ''invalid CIDR address: 10.10.0.0''
   \<and> createOverlayNetwork bad_subnet_env no_network_sys ''overlay0'' ''10.10.0.0'' [] =
       (Some (Wrap [Lit ''create overlay network failed''] (Base ''invalid CIDR address: 10.10.0.0'')), [])"
proof -
  have p: "ParseCIDR bad_subnet_env ''10.10.0.0'' = Some ''invalid CIDR address: 10.10.0.0''"
    by (simp add: bad_subnet_env_def good_init_env_def cidr_only_def)
  from createOverlayNetwork_bad_subnet [OF p] p show ?thesis by simp
qed

subsection \<open>The traces of the swarm commands\<close>

lemma SwarmLeave_trace: "snd (SwarmLeave s tr) = tr @ [E_exec SwarmLeave_cmd]"
  by (simp add: SwarmLeave_def Run_def Let_def split: option.splits)

lemma SwarmInit_ok_trace:
  assumes "SwarmInit s ift tr = (Inr token, tr2)"
  shows "tr2 = tr @ [E_exec (SwarmInit_cmd ift), E_exec (swarmJoinToken_cmd\<lparr>cmd_stdout := Buffer\<rparr>)]"
  using assms
  by (auto simp: SwarmInit_def swarmJoinToken_def Run_def Output_def Let_def split: option.splits prod.splits sum.splits)

lemma createOverlayNetwork_trace:
  "snd (createOverlayNetwork env s name subnet tr) =
     tr @ (if ParseCIDR env subnet = None
           then [E_exec (CreateNetwork_cmd name ''overlay'' [''--subnet'', subnet, ''--attachable''])]
           else [])"
  by (auto simp: createOverlayNetwork_def CreateNetwork_def Run_def Let_def split: option.splits)

lemma swarm_commands:
  "SwarmLeave_cmd = \<lparr>cmd_args = [''docker'', ''swarm'', ''leave'', ''--force''], cmd_env = None,
                   cmd_stdout = Unset, cmd_stderr = Buffer\<rparr>"
  "SwarmInit_cmd ift = \<lparr>cmd_args = [''docker'', ''swarm'', ''init'', ''--advertise-addr'', ift], cmd_env = None,
                   cmd_stdout = Unset, cmd_stderr = Buffer\<rparr>"
  "swarmJoinToken_cmd\<lparr>cmd_stdout := Buffer\<rparr> = \<lparr>cmd_args = [''docker'', ''swarm'', ''join-token'', ''worker''], cmd_env = None,
                   cmd_stdout = Buffer, cmd_stderr = Buffer\<rparr>"
  "CreateNetwork_cmd name ''overlay'' [''--subnet'', subnet, ''--attachable''] =
     \<lparr>cmd_args = [''docker'', ''network'', ''create'', ''--driver'', ''overlay'',
                                   ''--subnet'', subnet, ''--attachable'', name],
                       cmd_env = None, cmd_stdout = Unset, cmd_stderr = Buffer\<rparr>"
  by (simp_all add: SwarmLeave_cmd_def SwarmInit_cmd_def swarmJoinToken_cmd_def
      CreateNetwork_cmd_def docker_def)

text \<open>
  C1. In every run of \<open>stackInit\<close> in which \<open>docker.SwarmInit\<close> succeeds and
  \<open>createOverlayNetwork\<close> then fails with an error \<open>e\<close>, the result is \<open>e\<close> wrapped
  with "cannot initialize swarm", and the last event of the run is the command
  \<open>docker swarm leave --force\<close>, with a buffer on its standard error. It comes after the
  profile creation, \<open>docker swarm init --advertise-addr\<close> on the interface,
  \<open>docker swarm join-token worker\<close> and, when the subnet parses, the failed
  \<open>docker network create --driver overlay --subnet ... --attachable\<close>.
\<close>

theorem stackInit_leaves_swarm:
  assumes ift: "flag_Interface env = Inr ift"
    and ifok: "InterfaceByName env ift = None"
    and sub: "flag_IPSubnet env = Inr subnet"
    and name: "flag_OverlayNetworkName env = Inr name"
    and prof: "CreateProfile env (swarm_options env) = None"
    and init: "SwarmInit s ift (tr @ [E_create_profile (swarm_options env)]) = (Inr token, tr2)"
    and net: "createOverlayNetwork env s name subnet tr2 = (Some e, tr3)"
  shows "stackInit env s tr =
           (Some (Wrap [Lit ''cannot initialize swarm''] e),
            tr3 @ [E_exec \<lparr>cmd_args = [''docker'', ''swarm'', ''leave'', ''--force''], cmd_env = None,
                   cmd_stdout = Unset, cmd_stderr = Buffer\<rparr>])
       \<and> tr3 =
           tr @ [E_create_profile \<lparr>po_Name = SwarmProfile env, po_FromProfile = DefaultProfile env,
                             po_OverwriteExisting = True\<rparr>,
                 E_exec \<lparr>cmd_args = [''docker'', ''swarm'', ''init'', ''--advertise-addr'', ift], cmd_env = None,
                   cmd_stdout = Unset, cmd_stderr = Buffer\<rparr>,
                 E_exec \<lparr>cmd_args = [''docker'', ''swarm'', ''join-token'', ''worker''], cmd_env = None,
                   cmd_stdout = Buffer, cmd_stderr = Buffer\<rparr>]
              @ (if ParseCIDR env subnet = None
                 then [E_exec \<lparr>cmd_args = [''docker'', ''network'', ''create'', ''--driver'', ''overlay'',
                                   ''--subnet'', subnet, ''--attachable'', name],
                       cmd_env = None, cmd_stdout = Unset, cmd_stderr = Buffer\<rparr>]
                 else [])"
proof -
  have l: "SwarmLeave s tr3 = (fst (SwarmLeave s tr3), tr3 @ [E_exec SwarmLeave_cmd])"
    using SwarmLeave_trace [of s tr3] by (metis prod.collapse)
  have a: "stackInit env s tr = (Some (Wrap [Lit ''cannot initialize swarm''] e), tr3 @ [E_exec SwarmLeave_cmd])"
    using ift ifok sub name prof init net
    apply (simp add: stackInit_def Let_def)
    apply (subst l)
    apply simp
    done
  have t2: "tr2 = tr @ [E_create_profile (swarm_options env), E_exec (SwarmInit_cmd ift),
                 E_exec (swarmJoinToken_cmd\<lparr>cmd_stdout := Buffer\<rparr>)]"
    using SwarmInit_ok_trace [OF init] by simp
  have t3: "tr3 = tr2 @ (if ParseCIDR env subnet = None
           then [E_exec (CreateNetwork_cmd name ''overlay'' [''--subnet'', subnet, ''--attachable''])]
           else [])"
    using createOverlayNetwork_trace [of env s name subnet tr2] net by simp
  show ?thesis
    using a t2 t3 by (simp add: swarm_commands swarm_options_def)
qed

text \<open>
  The network creation fails on a machine whose address pool overlaps: the swarm is
  initialised, the network is refused, the swarm is left.
\<close>

theorem stackInit_leaves_swarm_witness:
  "flag_Interface good_init_env = Inr ''eth0''
   \<and> InterfaceByName good_init_env ''eth0'' = None
   \<and> flag_IPSubnet good_init_env = Inr ''10.10.0.0/24''
   \<and> CreateProfile good_init_env (swarm_options good_init_env) = None
   \<and> fst (SwarmInit no_network_sys ''eth0'' [E_create_profile (swarm_options good_init_env)]) = Inr ''SWMTKN-1-5k7c''
   \<and> stackInit good_init_env no_network_sys [] =
       (Some (Wrap [Lit ''cannot initialize swarm'']
          (Wrap [Lit ''could not create stack network (stderr='',
                 Quoted ''Error response from daemon: Pool overlaps with other one on this address space'',
                 Lit '')''] (Base ''exit status 1''))),
        [E_create_profile \<lparr>po_Name = ''swarm'', po_FromProfile = ''default'', po_OverwriteExisting = True\<rparr>,
         E_exec \<lparr>cmd_args = [''docker'', ''swarm'', ''init'', ''--advertise-addr'', ''eth0''], cmd_env = None,
                   cmd_stdout = Unset, cmd_stderr = Buffer\<rparr>,
         E_exec \<lparr>cmd_args = [''docker'', ''swarm'', ''join-token'', ''worker''], cmd_env = None,
                   cmd_stdout = Buffer, cmd_stderr = Buffer\<rparr>,
         E_exec \<lparr>cmd_args = [''docker'', ''network'', ''create'', ''--driver'', ''overlay'',
                                   ''--subnet'', ''10.10.0.0/24'', ''--attachable'', ''elastic-package-stack-overlay''],
                       cmd_env = None, cmd_stdout = Unset, cmd_stderr = Buffer\<rparr>,
         E_exec \<lparr>cmd_args = [''docker'', ''swarm'', ''leave'', ''--force''], cmd_env = None,
                   cmd_stdout = Unset, cmd_stderr = Buffer\<rparr>])"
proof -
  let ?t2 = "[E_create_profile (swarm_options good_init_env), E_exec (SwarmInit_cmd ''eth0''),
              E_exec (swarmJoinToken_cmd\<lparr>cmd_stdout := Buffer\<rparr>)]"
  let ?c = "CreateNetwork_cmd ''elastic-package-stack-overlay'' ''overlay''
              [''--subnet'', ''10.10.0.0/24'', ''--attachable'']"
  let ?e = "Wrap [Lit ''could not create stack network (stderr='',
                 Quoted ''Error response from daemon: Pool overlaps with other one on this address space'',
                 Lit '')''] (Base ''exit status 1'')"
  have ift: "flag_Interface good_init_env = Inr ''eth0''"
    and ifok: "InterfaceByName good_init_env ''eth0'' = None"
    and sub: "flag_IPSubnet good_init_env = Inr ''10.10.0.0/24''"
    and name: "flag_OverlayNetworkName good_init_env = Inr ''elastic-package-stack-overlay''"
    and prof: "CreateProfile good_init_env (swarm_options good_init_env) = None"
    and cidr: "ParseCIDR good_init_env ''10.10.0.0/24'' = None"
    and names: "SwarmProfile good_init_env = ''swarm''" "DefaultProfile good_init_env = ''default''"
    by (simp_all add: good_init_env_def cidr_only_def)
  have init: "SwarmInit no_network_sys ''eth0'' ([] @ [E_create_profile (swarm_options good_init_env)])
                = (Inr ''SWMTKN-1-5k7c'', ?t2)"
    by (simp add: SwarmInit_def swarmJoinToken_def Run_def Output_def Let_def no_network_sys_def
        no_network_host_def is_network_create_def SwarmInit_cmd_def swarmJoinToken_cmd_def docker_def)
  have net: "createOverlayNetwork good_init_env no_network_sys ''elastic-package-stack-overlay''
               ''10.10.0.0/24'' ?t2 = (Some ?e, ?t2 @ [E_exec ?c])"
    using cidr
    by (simp add: createOverlayNetwork_def CreateNetwork_def Run_def Let_def no_network_sys_def
        no_network_host_def is_network_create_def CreateNetwork_cmd_def docker_def errOutput_def)
  from stackInit_leaves_swarm [OF ift ifok sub name prof init net] ift ifok sub prof init
  show ?thesis by (simp add: swarm_commands swarm_options_def names)
qed

text \<open>
  The subnet \<open>10.10.0.0\<close> is no CIDR. The run on it creates the profile, issues
  \<open>docker swarm init\<close> and \<open>docker swarm join-token\<close>, and only then rejects the
  subnet: the swarm has been initialised before the subnet is validated.
\<close>

theorem stackInit_bad_subnet_counterexample:
  "ParseCIDR bad_subnet_env ''10.10.0.0'' = Some ''invalid CIDR address: 10.10.0.0''
   \<and> flag_IPSubnet bad_subnet_env = Inr ''10.10.0.0''
   \<and> stackInit bad_subnet_env quiet_sys [] =
       (Some (Wrap [Lit ''cannot initialize swarm'']
          (Wrap [Lit ''create overlay network failed''] (Base ''invalid CIDR address: 10.10.0.0''))),
        [E_create_profile \<lparr>po_Name = ''swarm'', po_FromProfile = ''default'', po_OverwriteExisting = True\<rparr>,
         E_exec \<lparr>cmd_args = [''docker'', ''swarm'', ''init'', ''--advertise-addr'', ''eth0''],
                 cmd_env = None, cmd_stdout = Unset, cmd_stderr = Buffer\<rparr>,
         E_exec \<lparr>cmd_args = [''docker'', ''swarm'', ''join-token'', ''worker''],
                 cmd_env = None, cmd_stdout = Buffer, cmd_stderr = Buffer\<rparr>,
         E_exec \<lparr>cmd_args = [''docker'', ''swarm'', ''leave'', ''--force''],
                 cmd_env = None, cmd_stdout = Unset, cmd_stderr = Buffer\<rparr>])"
  by (simp add: stackInit_def createOverlayNetwork_def SwarmInit_def swarmJoinToken_def SwarmLeave_def
      Run_def Output_def Let_def bad_subnet_env_def good_init_env_def cidr_only_def quiet_sys_def
      quiet_host_def swarm_options_def SwarmInit_cmd_def swarmJoinToken_cmd_def SwarmLeave_cmd_def docker_def)

subsection \<open>No network is created on the way\<close>

lemma issued_append: "issued (a @ b) = issued a @ issued b"
  by (induction a rule: issued.induct) auto

lemma not_create_init: "\<not> is_network_create (SwarmInit_cmd ift)"
  and not_create_token: "\<not> is_network_create (swarmJoinToken_cmd\<lparr>cmd_stdout := Buffer\<rparr>)"
  and not_create_leave: "\<not> is_network_create SwarmLeave_cmd"
  by (simp_all add: is_network_create_def SwarmInit_cmd_def swarmJoinToken_cmd_def SwarmLeave_cmd_def docker_def)

lemma SwarmInit_trace_cases:
  "snd (SwarmInit s ift tr) = tr @ [E_exec (SwarmInit_cmd ift)]
   \<or> snd (SwarmInit s ift tr) = tr @ [E_exec (SwarmInit_cmd ift), E_exec (swarmJoinToken_cmd\<lparr>cmd_stdout := Buffer\<rparr>)]"
  by (auto simp: SwarmInit_def swarmJoinToken_def Run_def Output_def Let_def split: option.splits prod.splits sum.splits)

lemma SwarmInit_no_create:
  "filter is_network_create (issued (snd (SwarmInit s ift tr))) = filter is_network_create (issued tr)"
  using SwarmInit_trace_cases [of s ift tr]
  by (auto simp: issued_append not_create_init not_create_token)

text \<open>
  C2, as the code has it. For every subnet string that \<open>net.ParseCIDR\<close> rejects,
  \<open>stackInit\<close> fails and issues no \<open>docker network create\<close> command. The subnet is
  validated after the profile creation and the swarm init: when the steps before the
  validation succeed, the run creates the profile, issues swarm init and join-token, rejects
  the subnet, issues swarm leave, and returns the parse error wrapped twice.
\<close>

theorem stackInit_bad_subnet:
  assumes sub: "flag_IPSubnet env = Inr subnet" and bad: "ParseCIDR env subnet = Some m"
  shows "fst (stackInit env s tr) \<noteq> None
       \<and> filter is_network_create (issued (snd (stackInit env s tr))) = filter is_network_create (issued tr)
       \<and> (flag_Interface env = Inr ift \<and> InterfaceByName env ift = None
            \<and> flag_OverlayNetworkName env = Inr name
            \<and> CreateProfile env (swarm_options env) = None
            \<and> fst (SwarmInit s ift (tr @ [E_create_profile (swarm_options env)])) = Inr token
          \<longrightarrow> stackInit env s tr =
                (Some (Wrap [Lit ''cannot initialize swarm'']
                   (Wrap [Lit ''create overlay network failed''] (Base m))),
                 tr @ [E_create_profile (swarm_options env), E_exec (SwarmInit_cmd ift),
                       E_exec (swarmJoinToken_cmd\<lparr>cmd_stdout := Buffer\<rparr>), E_exec SwarmLeave_cmd]))"
proof -
  have ov: "\<And>n t. createOverlayNetwork env s n subnet t =
              (Some (Wrap [Lit ''create overlay network failed''] (Base m)), t)"
    using bad by (simp add: createOverlayNetwork_def)
  have lv: "\<And>t. SwarmLeave s t = (fst (SwarmLeave s t), t @ [E_exec SwarmLeave_cmd])"
    using SwarmLeave_trace by (metis prod.collapse)
  have a: "fst (stackInit env s tr) \<noteq> None"
    using sub
    by (simp add: stackInit_def Let_def ov split: sum.splits option.splits prod.splits)
  have b: "filter is_network_create (issued (snd (stackInit env s tr))) = filter is_network_create (issued tr)"
  proof -
    { fix ift x t2
      assume "SwarmInit s ift (tr @ [E_create_profile (swarm_options env)]) = (x, t2)"
      then have "filter is_network_create (issued t2) = filter is_network_create (issued tr)"
        using SwarmInit_no_create [of s ift "tr @ [E_create_profile (swarm_options env)]"]
        by (simp add: issued_append) }
    note si = this
    show ?thesis
      using sub
      apply (simp add: stackInit_def Let_def ov split: sum.splits option.splits prod.splits)
      apply (intro allI impI conjI)
      apply (auto simp: issued_append dest: si)[1]
      apply (auto simp: issued_append dest: si)[1]
      apply (subst (asm) lv)
      apply (auto simp: issued_append not_create_leave dest: si)
      done
  qed
  have c: "flag_Interface env = Inr ift \<and> InterfaceByName env ift = None
            \<and> flag_OverlayNetworkName env = Inr name
            \<and> CreateProfile env (swarm_options env) = None
            \<and> fst (SwarmInit s ift (tr @ [E_create_profile (swarm_options env)])) = Inr token
          \<longrightarrow> stackInit env s tr =
                (Some (Wrap [Lit ''cannot initialize swarm'']
                   (Wrap [Lit ''create overlay network failed''] (Base m))),
                 tr @ [E_create_profile (swarm_options env), E_exec (SwarmInit_cmd ift),
                       E_exec (swarmJoinToken_cmd\<lparr>cmd_stdout := Buffer\<rparr>), E_exec SwarmLeave_cmd])"
  proof (intro impI, elim conjE)
    assume h: "flag_Interface env = Inr ift" "InterfaceByName env ift = None"
      "flag_OverlayNetworkName env = Inr name" "CreateProfile env (swarm_options env) = None"
      and i: "fst (SwarmInit s ift (tr @ [E_create_profile (swarm_options env)])) = Inr token"
    obtain t2 where i2: "SwarmInit s ift (tr @ [E_create_profile (swarm_options env)]) = (Inr token, t2)"
      using i by (metis prod.collapse)
    have t2: "t2 = tr @ [E_create_profile (swarm_options env), E_exec (SwarmInit_cmd ift),
                         E_exec (swarmJoinToken_cmd\<lparr>cmd_stdout := Buffer\<rparr>)]"
      using SwarmInit_ok_trace [OF i2] by simp
    show "stackInit env s tr =
                (Some (Wrap [Lit ''cannot initialize swarm'']
                   (Wrap [Lit ''create overlay network failed''] (Base m))),
                 tr @ [E_create_profile (swarm_options env), E_exec (SwarmInit_cmd ift),
                       E_exec (swarmJoinToken_cmd\<lparr>cmd_stdout := Buffer\<rparr>), E_exec SwarmLeave_cmd])"
      using h sub i2
      apply (simp add: stackInit_def Let_def ov)
      apply (subst lv)
      apply (simp add: t2)
      done
  qed
  show ?thesis using a b c by blast
qed


theorem stackInit_bad_subnet_witness:
  "flag_IPSubnet bad_subnet_env = Inr ''10.10.0.0''
   \<and> ParseCIDR bad_subnet_env ''10.10.0.0'' = Some ''invalid CIDR address: 10.10.0.0''
   \<and> fst (stackInit bad_subnet_env quiet_sys []) \<noteq> None
   \<and> filter is_network_create (issued (snd (stackInit bad_subnet_env quiet_sys []))) = []
   \<and> stackInit bad_subnet_env quiet_sys [] =
       (Some (Wrap [Lit ''cannot initialize swarm'']
          (Wrap [Lit ''create overlay network failed''] (Base ''invalid CIDR address: 10.10.0.0''))),
        [E_create_profile (swarm_options bad_subnet_env), E_exec (SwarmInit_cmd ''eth0''),
         E_exec (swarmJoinToken_cmd\<lparr>cmd_stdout := Buffer\<rparr>), E_exec SwarmLeave_cmd])"
proof -
  have sub: "flag_IPSubnet bad_subnet_env = Inr ''10.10.0.0''"
    and bad: "ParseCIDR bad_subnet_env ''10.10.0.0'' = Some ''invalid CIDR address: 10.10.0.0''"
    and h: "flag_Interface bad_subnet_env = Inr ''eth0''"
      "InterfaceByName bad_subnet_env ''eth0'' = None"
      "flag_OverlayNetworkName bad_subnet_env = Inr ''elastic-package-stack-overlay''"
      "CreateProfile bad_subnet_env (swarm_options bad_subnet_env) = None"
    by (simp_all add: bad_subnet_env_def good_init_env_def cidr_only_def)
  have i: "fst (SwarmInit quiet_sys ''eth0'' ([] @ [E_create_profile (swarm_options bad_subnet_env)])) = Inr []"
    by (simp add: SwarmInit_def swarmJoinToken_def Run_def Output_def Let_def quiet_sys_def quiet_host_def)
  from stackInit_bad_subnet [OF sub bad, of quiet_sys "[]" "''eth0''" "''elastic-package-stack-overlay''" "[]"]
    sub bad h i
  show ?thesis by (simp add: not_create_init not_create_token not_create_leave)
qed

section \<open>Properties of cmd/query.go\<close>


lemma queryPackageManifest_range_eq:
  "values \<noteq> [] \<Longrightarrow> queryPackageManifest_range key values cfg fs =
     Inr (key \<in> set fs \<and> String0 cfg key = Inr (hd values))"
  by (induction fs) (auto split: sum.splits list.splits)

lemma queryPackageManifest_range_first:
  "queryPackageManifest_range key (v # vs) cfg fs = queryPackageManifest_range key [v] cfg fs"
  by (induction fs) (auto split: sum.splits)

text \<open>
  C3. For a non-empty value list, \<open>queryPackageManifest\<close> returns true exactly when the
  queried key is among the flattened keys of the manifest and the string configured at the
  key is the first element of the value list. The elements after the first are never
  compared: the result on \<open>v # vs\<close> is the result on \<open>[v]\<close>. On the packages \<open>a\<close>
  with \<open>foo.bar: x\<close> and \<open>b\<close> with \<open>foo.bar: y\<close>, the key \<open>foo.bar\<close> and the values
  \<open>[x]\<close>, the loop of \<open>queryManifest\<close> ends with nothing skipped and \<open>[a]\<close> matched.
\<close>

theorem queryPackageManifest_first_value:
  "(values \<noteq> [] \<longrightarrow>
      queryPackageManifest key values cfg =
        Inr (key \<in> set (FlattenedKeys cfg) \<and> String0 cfg key = Inr (hd values)))
   \<and> queryPackageManifest key (v # vs) cfg = queryPackageManifest key [v] cfg
   \<and> queryManifest_range (repo_env [dir_a, dir_b] [''x'']) ''foo.bar'' [''x''] ''packages''
         [dir_a, dir_b] ([], []) = Inr ([], [''a''])"
proof -
  have a: "values \<noteq> [] \<longrightarrow>
      queryPackageManifest key values cfg =
        Inr (key \<in> set (FlattenedKeys cfg) \<and> String0 cfg key = Inr (hd values))"
    by (simp add: queryPackageManifest_def queryPackageManifest_range_eq)
  have b: "queryPackageManifest key (v # vs) cfg = queryPackageManifest key [v] cfg"
    unfolding queryPackageManifest_def Let_def by (rule queryPackageManifest_range_first)
  have c: "queryManifest_range (repo_env [dir_a, dir_b] [''x'']) ''foo.bar'' [''x''] ''packages''
         [dir_a, dir_b] ([], []) = Inr ([], [''a''])"
    by (simp add: repo_env_def dir_a_def dir_b_def manifests_def manifest_of_def filepath_Join_def
        queryPackageManifest_def)
  show ?thesis using a b c by blast
qed

theorem queryPackageManifest_first_value_witness:
  "[''x'', ''y''] \<noteq> []
   \<and> queryPackageManifest ''foo.bar'' [''x'', ''y''] (manifest_of ''x'') = Inr True
   \<and> queryPackageManifest ''foo.bar'' [''y'', ''x''] (manifest_of ''x'') = Inr False
   \<and> queryPackageManifest ''foo.baz'' [''x'', ''y''] (manifest_of ''x'') = Inr False"
  using queryPackageManifest_first_value [of "[''x'', ''y'']" "''foo.bar''" "manifest_of ''x''"]
    queryPackageManifest_first_value [of "[''y'', ''x'']" "''foo.bar''" "manifest_of ''x''"]
    queryPackageManifest_first_value [of "[''x'', ''y'']" "''foo.baz''" "manifest_of ''x''"]
  by (simp add: manifest_of_def)

subsection \<open>The loop over the packages\<close>

lemma queryManifest_range_total:
  "values \<noteq> [] \<Longrightarrow> \<exists>r. queryManifest_range env key values ppath pkgs (sk, fd) = Inr r"
proof (induction pkgs arbitrary: sk fd)
  case Nil
  then show ?case by simp
next
  case (Cons pkg pkgs)
  have q: "\<And>cfg. queryPackageManifest key values cfg =
             Inr (key \<in> set (FlattenedKeys cfg) \<and> String0 cfg key = Inr (hd values))"
    using Cons.prems by (simp add: queryPackageManifest_def queryPackageManifest_range_eq)
  show ?case
    using Cons.IH [OF Cons.prems]
    by (simp add: Let_def q split: sum.splits bool.splits)
qed

lemma queryManifest_range_acc:
  "queryManifest_range env key values ppath pkgs (sk, fd) = Inr (sk', fd') \<Longrightarrow>
     sk' = sk @ spec_skipped env ppath pkgs \<and> fd' = fd @ spec_matched env key values ppath pkgs"
proof (induction pkgs arbitrary: sk fd)
  case Nil
  then show ?case by (simp add: spec_skipped_def spec_matched_def)
next
  case (Cons pkg pkgs)
  then show ?case
    by (fastforce simp: Let_def spec_skipped_def spec_matched_def load_manifest_def
        split: sum.splits bool.splits if_splits)
qed

lemma queryManifest_range_without_failures:
  "queryManifest_range env key values ppath pkgs (sk, fd) = Inr (sk', fd') \<Longrightarrow>
   queryManifest_range env key values ppath (filter (\<lambda>pkg. \<not> load_fails env ppath pkg) pkgs) (sk0, fd)
     = Inr (sk0, fd')"
proof (induction pkgs arbitrary: sk fd)
  case Nil
  then show ?case by simp
next
  case (Cons pkg pkgs)
  then show ?case
    by (auto simp: Let_def load_fails_def load_manifest_def split: sum.splits bool.splits if_splits)
qed

lemma queryManifest_range_no_match:
  assumes "\<forall>pkg \<in> set pkgs. IsDir pkg \<longrightarrow>
             (case load_manifest env ppath pkg of
                Inl m \<Rightarrow> True
              | Inr cfg \<Rightarrow> queryPackageManifest key values cfg = Inr False)"
  shows "queryManifest_range env key values ppath pkgs (sk, fd) = Inr (sk @ spec_skipped env ppath pkgs, fd)"
  using assms
proof (induction pkgs arbitrary: sk)
  case Nil
  then show ?case by (simp add: spec_skipped_def)
next
  case (Cons pkg pkgs)
  then show ?case
    by (auto simp: Let_def spec_skipped_def load_manifest_def split: sum.splits)
qed


lemma ppath_packages: "filepath_Join [''.'', packagesDir] = ''packages''"
  by (simp add: filepath_Join_def packagesDir_def)

lemma queryManifest_result:
  assumes check: "queryCheck env = None"
    and vals: "flag_ManifestValue env = Inr values0"
    and dir: "ReadDir env ''packages'' = Inr pkgs"
    and range: "queryManifest_range env (flag_ManifestKey env) (TrimStringSlice env values0)
                  ''packages'' pkgs ([], []) = Inr (skipped, found)"
  shows "queryManifest env tr =
     Inr (None, tr
          @ (if skipped = [] then []
             else E_println ''Skipped packages:'' # map (\<lambda>v. E_println (''  '' @ v)) skipped)
          @ (if found = [] then [E_println ''key with value not found in any packages'']
             else E_println ''Packages:'' # map (\<lambda>v. E_println (''  '' @ v)) found))"
  using check vals dir range
  by (simp add: queryManifest_def Let_def ppath_packages)

lemma queryManifest_range_isolated:
  "queryManifest_range env key vs ppath pkgs (sk, fd) =
     (case queryManifest_range env key vs ppath
             (filter (\<lambda>pkg. \<not> load_fails env ppath pkg) pkgs) (sk0, fd) of
        Inl p \<Rightarrow> Inl p
      | Inr (sk', fd') \<Rightarrow> Inr (sk @ spec_skipped env ppath pkgs, fd'))"
proof (induction pkgs arbitrary: sk fd)
  case Nil
  then show ?case by (simp add: spec_skipped_def)
next
  case (Cons pkg pkgs)
  have sk: "spec_skipped env ppath (pkg # pkgs) =
      (if IsDir pkg then (case load_manifest env ppath pkg of Inl m \<Rightarrow> [Name pkg @ '': '' @ m] | Inr cfg \<Rightarrow> [])
       else []) @ spec_skipped env ppath pkgs"
    by (simp add: spec_skipped_def)
  show ?case
  proof (cases "IsDir pkg")
    case False
    then show ?thesis
      using Cons.IH [of sk fd]
      by (simp add: sk load_fails_def split: sum.splits prod.splits)
  next
    case True
    show ?thesis
    proof (cases "load_manifest env ppath pkg")
      case (Inl m)
      then have n: "NewConfigWithFile env (filepath_Join [ppath, Name pkg, PackageManifestFile env]) = Inl m"
        by (simp add: load_manifest_def)
      show ?thesis
        using True Inl n Cons.IH [of "sk @ [Name pkg @ '': '' @ m]" fd]
        by (simp add: sk load_fails_def Let_def split: sum.splits prod.splits)
    next
      case (Inr cfg)
      then have n: "NewConfigWithFile env (filepath_Join [ppath, Name pkg, PackageManifestFile env]) = Inr cfg"
        by (simp add: load_manifest_def)
      show ?thesis
      proof (cases "queryPackageManifest key vs cfg")
        case (Inl p)
        then show ?thesis using True Inr n by (simp add: sk load_fails_def Let_def)
      next
        case q: (Inr t)
        show ?thesis
        proof (cases t)
          case True
          then show ?thesis
            using \<open>IsDir pkg\<close> Inr n q Cons.IH [of sk "fd @ [Name pkg]"]
            by (simp add: sk load_fails_def Let_def split: sum.splits prod.splits)
        next
          case False
          then show ?thesis
            using \<open>IsDir pkg\<close> Inr n q Cons.IH [of sk fd]
            by (simp add: sk load_fails_def Let_def split: sum.splits prod.splits)
        qed
      qed
    qed
  qed
qed

lemma spec_skipped_member:
  "pkg \<in> set pkgs \<Longrightarrow> IsDir pkg \<Longrightarrow> load_manifest env ppath pkg = Inl m \<Longrightarrow>
   Name pkg @ '': '' @ m \<in> set (spec_skipped env ppath pkgs)"
  unfolding spec_skipped_def by force


subsection \<open>The example checkout\<close>

lemma repo_env_fields:
  "queryCheck (repo_env pkgs values) = None"
  "flag_ManifestValue (repo_env pkgs values) = Inr values"
  "ReadDir (repo_env pkgs values) ''packages'' = Inr pkgs"
  "flag_ManifestKey (repo_env pkgs values) = ''foo.bar''"
  "TrimStringSlice (repo_env pkgs values) = map TrimSpace"
  by (simp_all add: repo_env_def queryCheck_def elasticIntegrations_def)

lemma TrimSpace_x: "TrimSpace ''x'' = ''x''"
  by (simp add: TrimSpace.simps TrimSpace_stop.simps asciiSpace_def RuneSelf_def byte_values)

lemma load_a: "load_manifest (repo_env pkgs values) ''packages'' dir_a = Inr (manifest_of ''x'')"
  and load_b: "load_manifest (repo_env pkgs values) ''packages'' dir_b = Inr (manifest_of ''y'')"
  and load_broken: "load_manifest (repo_env pkgs values) ''packages'' dir_broken
                      = Inl ''yaml: line 2: did not find expected key''"
  by (simp_all add: load_manifest_def repo_env_def manifests_def filepath_Join_def
      dir_a_def dir_b_def dir_broken_def)

lemma query_x: "queryPackageManifest ''foo.bar'' [''x''] (manifest_of ''x'') = Inr True"
  and query_y: "queryPackageManifest ''foo.bar'' [''x''] (manifest_of ''y'') = Inr False"
  by (simp_all add: queryPackageManifest_def manifest_of_def)

lemma dirs: "IsDir dir_a" "IsDir dir_b" "IsDir dir_broken"
  "Name dir_a = ''a''" "Name dir_b = ''b''" "Name dir_broken = ''broken''"
  by (simp_all add: dir_a_def dir_b_def dir_broken_def)

lemma range_broken_first:
  assumes "IsDir d" and "load_manifest (repo_env pkgs vs) ''packages'' d = Inr cfg"
    and "queryPackageManifest ''foo.bar'' [] cfg = Inl p"
  shows "queryManifest_range (repo_env pkgs vs) ''foo.bar'' [] ''packages'' [dir_broken, d] ([], [])
           = Inl p"
  using assms load_broken [of pkgs vs]
  by (simp add: dirs load_manifest_def Let_def)

lemma query_empty_values:
  "queryPackageManifest ''foo.bar'' [] (manifest_of v) = Inl IndexOutOfRange"
  by (simp add: queryPackageManifest_def manifest_of_def)



subsection \<open>No match\<close>

text \<open>
  When the value list is not empty, or no manifest that loads has the key, and nothing
  matches, \<open>queryManifest\<close> prints the skipped packages, if any, and the line that the key
  with the value was not found, and returns no error.
\<close>

lemma queryManifest_no_match_returns_nil:
  assumes check: "queryCheck env = None"
    and vals: "flag_ManifestValue env = Inr values0"
    and dir: "ReadDir env ''packages'' = Inr pkgs"
    and nomatch: "\<forall>pkg \<in> set pkgs. IsDir pkg \<longrightarrow>
             (case load_manifest env ''packages'' pkg of
                Inl m \<Rightarrow> True
              | Inr cfg \<Rightarrow>
                  queryPackageManifest (flag_ManifestKey env) (TrimStringSlice env values0) cfg = Inr False)"
  shows "queryManifest env tr =
     Inr (None, tr
          @ (if spec_skipped env ''packages'' pkgs = [] then []
             else E_println ''Skipped packages:''
                  # map (\<lambda>v. E_println (''  '' @ v)) (spec_skipped env ''packages'' pkgs))
          @ [E_println ''key with value not found in any packages''])"
proof -
  have range: "queryManifest_range env (flag_ManifestKey env) (TrimStringSlice env values0)
                  ''packages'' pkgs ([], []) = Inr (spec_skipped env ''packages'' pkgs, [])"
    using queryManifest_range_no_match [OF nomatch, of "[]" "[]"] by simp
  show ?thesis
    using queryManifest_result [OF check vals dir range, of tr] by simp
qed

text \<open>
  C9. With an empty value list no package can match. The run on \<open>broken\<close>, whose
  manifest does not parse, and \<open>b\<close>, whose manifest has the key, does not return: it
  panics at \<open>values[0]\<close> with an index out of range.
\<close>

theorem queryManifest_empty_values_panics:
  "queryCheck (repo_env [dir_broken, dir_b] []) = None
   \<and> flag_ManifestValue (repo_env [dir_broken, dir_b] []) = Inr []
   \<and> TrimStringSlice (repo_env [dir_broken, dir_b] []) [] = []
   \<and> ReadDir (repo_env [dir_broken, dir_b] []) ''packages'' = Inr [dir_broken, dir_b]
   \<and> load_manifest (repo_env [dir_broken, dir_b] []) ''packages'' dir_broken
        = Inl ''yaml: line 2: did not find expected key''
   \<and> load_manifest (repo_env [dir_broken, dir_b] []) ''packages'' dir_b = Inr (manifest_of ''y'')
   \<and> String0 (manifest_of ''y'') ''foo.bar'' = Inr ''y''
   \<and> queryManifest (repo_env [dir_broken, dir_b] []) [] = Inl IndexOutOfRange"
proof -
  have r: "queryManifest_range (repo_env [dir_broken, dir_b] []) ''foo.bar'' [] ''packages''
             [dir_broken, dir_b] ([], []) = Inl IndexOutOfRange"
    by (rule range_broken_first [OF dirs(2) load_b query_empty_values])
  have p: "queryManifest (repo_env [dir_broken, dir_b] []) [] = Inl IndexOutOfRange"
    by (simp add: queryManifest_def Let_def repo_env_fields ppath_packages r
        del: queryManifest_range.simps)
  show ?thesis
    using p by (simp add: repo_env_fields load_b load_broken manifest_of_def)
qed

section \<open>Properties of the stack package\<close>


lemma build_merge:
  "build (withEnvs (withEnv (withEnvs newEnvBuilder a) b) c) = a @ [b] @ c"
  by (simp add: build_def withEnvs_def withEnv_def newEnvBuilder_def)

text \<open>
  C7. A run of \<open>stackDeploy\<close> either fails to read the application configuration and
  starts no process, or starts exactly one process, \<open>docker stack deploy\<close> with the
  compose file of the profile and the stack name, whose environment is the inherited
  environment of the process followed by the merged variables: the image references of
  the stack version, the variant variable of the version, and the compose variables of the
  profile, in this order and nothing else.
\<close>

theorem stackDeploy_environment:
  "(case Configuration env of
      Inl m \<Rightarrow> stackDeploy s env options tr =
                 (Some (Wrap [Lit ''can't read application configuration''] (Base m)), tr)
    | Inr appConfig \<Rightarrow>
        (\<exists>c. snd (stackDeploy s env options tr) = tr @ [E_exec c]
           \<and> cmd_args c = [''docker'', ''stack'', ''deploy'', ''--compose-file'',
                            SnapshotFile_path (Profile options), StackName options]
           \<and> cmd_env c = Some (Environ env
                               @ appConfig (StackVersion options)
                               @ [stackVariantAsEnv env (StackVersion options)]
                               @ ComposeEnvVars (Profile options))
           \<and> fst (stackDeploy s env options tr) = map_option Base (exit_err (host s tr c))))"
proof (cases "Configuration env")
  case (Inl m)
  then show ?thesis by (simp add: stackDeploy_def Let_def)
next
  case (Inr appConfig)
  then show ?thesis
    by (simp add: stackDeploy_def Let_def build_merge Run_def stackDeploy_args_def docker_def)
qed

subsection \<open>The stages of Deploy\<close>

lemma clears_append: "clears (a @ b) = clears a @ clears b"
  by (induction a rule: clears.induct) auto

lemma copies_append: "copies (a @ b) = copies a @ copies b"
  by (induction a rule: copies.induct) auto

lemma stackDeploy_trace:
  "clears (snd (stackDeploy s env options tr)) = clears tr
   \<and> copies (snd (stackDeploy s env options tr)) = copies tr"
  by (simp add: stackDeploy_def Let_def Run_def clears_append copies_append split: sum.splits)

lemma Deploy_find_failed:
  "FindBuildPackagesDirectory env = Inl m \<Longrightarrow>
   Deploy s env options tr = (Some (Wrap [Lit ''finding build packages directory failed''] (Base m)), tr)"
  by (simp add: Deploy_def)

lemma Deploy_locate_failed:
  "FindBuildPackagesDirectory env = Inr (src, found) \<Longrightarrow> NewLocationManager env = Inl m \<Longrightarrow>
   Deploy s env options tr = (Some (Wrap [Lit ''locating stack packages directory failed''] (Base m)), tr)"
  by (simp add: Deploy_def)

lemma Deploy_clear_failed:
  "FindBuildPackagesDirectory env = Inr (src, found) \<Longrightarrow> NewLocationManager env = Inr dst \<Longrightarrow>
   ClearDir env dst = Some m \<Longrightarrow>
   Deploy s env options tr =
     (Some (Wrap [Lit ''clearing package contents failed''] (Base m)), tr @ [E_clear_dir dst])"
  by (simp add: Deploy_def)

lemma Deploy_copy_failed:
  "FindBuildPackagesDirectory env = Inr (src, True) \<Longrightarrow> NewLocationManager env = Inr dst \<Longrightarrow>
   ClearDir env dst = None \<Longrightarrow> CopyAll env src dst = Some m \<Longrightarrow>
   Deploy s env options tr =
     (Some (Wrap [Lit ''copying package contents failed''] (Base m)),
      tr @ [E_clear_dir dst, E_println (''Custom build packages directory found: '' @ src),
            E_copy_all src dst])"
  by (simp add: Deploy_def)

lemma Deploy_build_failed:
  "FindBuildPackagesDirectory env = Inr (src, found) \<Longrightarrow> NewLocationManager env = Inr dst \<Longrightarrow>
   ClearDir env dst = None \<Longrightarrow> (found \<Longrightarrow> CopyAll env src dst = None) \<Longrightarrow>
   dockerComposeBuild env options = Some m \<Longrightarrow>
   Deploy s env options tr =
     (Some (Wrap [Lit ''building docker images failed''] (Base m)), tr @ Deploy_prepared src found dst)"
  by (cases found) (simp_all add: Deploy_def Deploy_prepared_def)

lemma Deploy_built:
  "FindBuildPackagesDirectory env = Inr (src, found) \<Longrightarrow> NewLocationManager env = Inr dst \<Longrightarrow>
   ClearDir env dst = None \<Longrightarrow> (found \<Longrightarrow> CopyAll env src dst = None) \<Longrightarrow>
   dockerComposeBuild env options = None \<Longrightarrow>
   Deploy s env options tr =
     (map_option (Wrap [Lit ''running docker stack deploy failed''])
        (fst (stackDeploy s env options (tr @ Deploy_prepared src found dst))),
      snd (stackDeploy s env options (tr @ Deploy_prepared src found dst)))"
  by (cases found) (simp_all add: Deploy_def Deploy_prepared_def split: prod.splits option.splits)

lemma Deploy_prepared_effects:
  "clears (Deploy_prepared src found dst) = [dst]"
  "copies (Deploy_prepared src found dst) = (if found then [(src, dst)] else [])"
  by (simp_all add: Deploy_prepared_def)

lemma Deploy_effects:
  assumes find: "FindBuildPackagesDirectory env = Inr (src, found)"
    and loc: "NewLocationManager env = Inr dst"
  shows "clears (snd (Deploy s env options tr)) = clears tr @ [dst]
       \<and> copies (snd (Deploy s env options tr)) =
           copies tr @ (if found \<and> ClearDir env dst = None then [(src, dst)] else [])"
proof (cases "ClearDir env dst")
  case (Some m)
  show ?thesis
    using Deploy_clear_failed [OF find loc Some] Some by (simp add: clears_append copies_append)
next
  case None
  show ?thesis
  proof (cases "found \<and> CopyAll env src dst \<noteq> None")
    case True
    then obtain m where m: "CopyAll env src dst = Some m" and f: found by auto
    show ?thesis
      using Deploy_copy_failed [OF find [unfolded f [THEN eqTrueI]] loc None m] None f
      by (simp add: clears_append copies_append)
  next
    case False
    then have c: "found \<Longrightarrow> CopyAll env src dst = None" by auto
    show ?thesis
    proof (cases "dockerComposeBuild env options")
      case (Some m)
      show ?thesis
        using Deploy_build_failed [OF find loc None c Some] None
        by (simp add: clears_append copies_append Deploy_prepared_effects)
    next
      case n: None
      show ?thesis
        using Deploy_built [OF find loc None c n] None stackDeploy_trace
        by (simp add: clears_append copies_append Deploy_prepared_effects)
    qed
  qed
qed


text \<open>
  C8. In a run of \<open>Deploy\<close> that has found out whether a custom build-packages directory
  exists and has located the packages directory, the packages directory is cleared, once
  and whether or not a custom directory was found, and the custom directory is copied into
  it exactly when it was found and the clearing succeeded. A failure at a stage (finding,
  locating, clearing, copying, building the images, deploying) ends the run with the error
  wrapped in the message of that stage; the trace then holds the events of the stages
  already run and nothing that undoes them.
\<close>

theorem Deploy_stages:
  "(FindBuildPackagesDirectory env = Inl m \<longrightarrow>
      Deploy s env options tr =
        (Some (Wrap [Lit ''finding build packages directory failed''] (Base m)), tr))
   \<and> (FindBuildPackagesDirectory env = Inr (src, found) \<and> NewLocationManager env = Inl m \<longrightarrow>
      Deploy s env options tr =
        (Some (Wrap [Lit ''locating stack packages directory failed''] (Base m)), tr))
   \<and> (FindBuildPackagesDirectory env = Inr (src, found) \<and> NewLocationManager env = Inr dst \<longrightarrow>
        clears (snd (Deploy s env options tr)) = clears tr @ [dst]
      \<and> copies (snd (Deploy s env options tr)) =
           copies tr @ (if found \<and> ClearDir env dst = None then [(src, dst)] else [])
      \<and> (ClearDir env dst = Some m \<longrightarrow>
           Deploy s env options tr =
             (Some (Wrap [Lit ''clearing package contents failed''] (Base m)), tr @ [E_clear_dir dst]))
      \<and> (found \<and> ClearDir env dst = None \<and> CopyAll env src dst = Some m \<longrightarrow>
           Deploy s env options tr =
             (Some (Wrap [Lit ''copying package contents failed''] (Base m)),
              tr @ [E_clear_dir dst, E_println (''Custom build packages directory found: '' @ src),
                    E_copy_all src dst]))
      \<and> (ClearDir env dst = None \<and> (found \<longrightarrow> CopyAll env src dst = None) \<longrightarrow>
           (dockerComposeBuild env options = Some m \<longrightarrow>
              Deploy s env options tr =
                (Some (Wrap [Lit ''building docker images failed''] (Base m)),
                 tr @ Deploy_prepared src found dst))
         \<and> (dockerComposeBuild env options = None \<longrightarrow>
              Deploy s env options tr =
                (map_option (Wrap [Lit ''running docker stack deploy failed''])
                   (fst (stackDeploy s env options (tr @ Deploy_prepared src found dst))),
                 snd (stackDeploy s env options (tr @ Deploy_prepared src found dst))))))"
proof (intro conjI impI; (elim conjE)?)
  assume "FindBuildPackagesDirectory env = Inl m"
  then show "Deploy s env options tr =
        (Some (Wrap [Lit ''finding build packages directory failed''] (Base m)), tr)"
    by (rule Deploy_find_failed)
next
  assume "FindBuildPackagesDirectory env = Inr (src, found)" "NewLocationManager env = Inl m"
  then show "Deploy s env options tr =
        (Some (Wrap [Lit ''locating stack packages directory failed''] (Base m)), tr)"
    by (rule Deploy_locate_failed)
next
  assume "FindBuildPackagesDirectory env = Inr (src, found)" "NewLocationManager env = Inr dst"
  then show "clears (snd (Deploy s env options tr)) = clears tr @ [dst]"
    using Deploy_effects by blast
next
  assume "FindBuildPackagesDirectory env = Inr (src, found)" "NewLocationManager env = Inr dst"
  then show "copies (snd (Deploy s env options tr)) =
           copies tr @ (if found \<and> ClearDir env dst = None then [(src, dst)] else [])"
    using Deploy_effects by blast
next
  assume "FindBuildPackagesDirectory env = Inr (src, found)" "NewLocationManager env = Inr dst"
    "ClearDir env dst = Some m"
  then show "Deploy s env options tr =
             (Some (Wrap [Lit ''clearing package contents failed''] (Base m)), tr @ [E_clear_dir dst])"
    by (rule Deploy_clear_failed)
next
  assume "FindBuildPackagesDirectory env = Inr (src, found)" "NewLocationManager env = Inr dst"
    found "ClearDir env dst = None" "CopyAll env src dst = Some m"
  then show "Deploy s env options tr =
             (Some (Wrap [Lit ''copying package contents failed''] (Base m)),
              tr @ [E_clear_dir dst, E_println (''Custom build packages directory found: '' @ src),
                    E_copy_all src dst])"
    using Deploy_copy_failed by simp
next
  assume "FindBuildPackagesDirectory env = Inr (src, found)" "NewLocationManager env = Inr dst"
    "ClearDir env dst = None" "found \<longrightarrow> CopyAll env src dst = None"
    "dockerComposeBuild env options = Some m"
  then show "Deploy s env options tr =
                (Some (Wrap [Lit ''building docker images failed''] (Base m)),
                 tr @ Deploy_prepared src found dst)"
    using Deploy_build_failed by blast
next
  assume "FindBuildPackagesDirectory env = Inr (src, found)" "NewLocationManager env = Inr dst"
    "ClearDir env dst = None" "found \<longrightarrow> CopyAll env src dst = None"
    "dockerComposeBuild env options = None"
  then show "Deploy s env options tr =
                (map_option (Wrap [Lit ''running docker stack deploy failed''])
                   (fst (stackDeploy s env options (tr @ Deploy_prepared src found dst))),
                 snd (stackDeploy s env options (tr @ Deploy_prepared src found dst)))"
    using Deploy_built by blast
qed


theorem stackDeploy_environment_witness:
  "\<exists>c. snd (stackDeploy quiet_sys abc_env abc_options []) = [E_exec c]
      \<and> cmd_args c = [''docker'', ''stack'', ''deploy'', ''--compose-file'',
                       ''/home/u/.elastic-package/profiles/swarm/stack/snapshot.yml'', ''elastic'']
      \<and> cmd_env c = Some [''PATH=/usr/bin'', ''HOME=/home/u'', ''A=1'', ''B=2'', ''C=3'']"
  using stackDeploy_environment [where env = abc_env and s = quiet_sys and options = abc_options and tr = "[]"]
  by (auto simp: abc_env_def abc_options_def)

theorem Deploy_stages_witness:
  "FindBuildPackagesDirectory builtin_env = Inr ([], False)
   \<and> NewLocationManager builtin_env = Inr ''/home/u/.elastic-package/stack/development''
   \<and> clears (snd (Deploy quiet_sys builtin_env abc_options []))
        = [''/home/u/.elastic-package/stack/development'']
   \<and> copies (snd (Deploy quiet_sys builtin_env abc_options [])) = []
   \<and> FindBuildPackagesDirectory abc_env = Inr (''/work/build/packages'', True)
   \<and> copies (snd (Deploy quiet_sys abc_env abc_options []))
        = [(''/work/build/packages'', ''/home/u/.elastic-package/stack/development'')]
   \<and> Deploy quiet_sys (abc_env\<lparr>CopyAll := (\<lambda>a b. Some ''no space left on device'')\<rparr>) abc_options [] =
        (Some (Wrap [Lit ''copying package contents failed''] (Base ''no space left on device'')),
         [E_clear_dir ''/home/u/.elastic-package/stack/development'',
          E_println ''Custom build packages directory found: /work/build/packages'',
          E_copy_all ''/work/build/packages'' ''/home/u/.elastic-package/stack/development''])"
proof -
  let ?dst = "''/home/u/.elastic-package/stack/development''"
  let ?src = "''/work/build/packages''"
  let ?full = "abc_env\<lparr>CopyAll := (\<lambda>a b. Some ''no space left on device'')\<rparr>"
  have b: "FindBuildPackagesDirectory builtin_env = Inr ([], False)"
    "NewLocationManager builtin_env = Inr ?dst" "ClearDir builtin_env ?dst = None"
    by (simp_all add: builtin_env_def abc_env_def)
  have a: "FindBuildPackagesDirectory abc_env = Inr (?src, True)"
    "NewLocationManager abc_env = Inr ?dst" "ClearDir abc_env ?dst = None"
    by (simp_all add: abc_env_def)
  have f: "FindBuildPackagesDirectory ?full = Inr (?src, True)"
    "NewLocationManager ?full = Inr ?dst" "ClearDir ?full ?dst = None"
    "CopyAll ?full ?src ?dst = Some ''no space left on device''"
    by (simp_all add: abc_env_def)
  from Deploy_stages [where env = builtin_env and s = quiet_sys and options = abc_options and tr = "[]"
                       and src = "[]" and found = False and dst = ?dst and m = "[]"]
    Deploy_stages [where env = abc_env and s = quiet_sys and options = abc_options and tr = "[]"
                     and src = ?src and found = True and dst = ?dst and m = "[]"]
    Deploy_stages [where env = ?full and s = quiet_sys and options = abc_options and tr = "[]"
                     and src = ?src and found = True and dst = ?dst and m = "''no space left on device''"]
  show ?thesis
    by (simp add: a b f)
qed

section \<open>Standard error of the docker commands\<close>


lemma sublist_concat_member: "x \<in> set xs \<Longrightarrow> sublist x (concat xs)"
proof -
  assume "x \<in> set xs"
  then obtain as bs where "xs = as @ x # bs" by (auto dest: split_list)
  then have "concat xs = concat as @ x @ concat bs" by simp
  then show ?thesis unfolding sublist_def by blast
qed

lemma sublist_left: "sublist x a \<Longrightarrow> sublist x (a @ b)"
  unfolding sublist_def by (metis append.assoc)

lemma sublist_right: "sublist x b \<Longrightarrow> sublist x (a @ b)"
  unfolding sublist_def by (metis append.assoc)

lemma carries_text: "carries e t \<Longrightarrow> sublist (q t) (error_text q e)"
proof (induction e)
  case (Base m)
  then show ?case by simp
next
  case (Wrap ps e)
  show ?case
  proof (cases "Quoted t \<in> set ps")
    case True
    then have "render q (Quoted t) \<in> set (map (render q) ps)" by force
    then have "sublist (q t) (concat (map (render q) ps))"
      using sublist_concat_member by fastforce
    then show ?thesis
      unfolding error_text.simps by (rule sublist_left)
  next
    case False
    with Wrap have "sublist (q t) (error_text q e)" by simp
    then show ?thesis
      unfolding error_text.simps by (intro sublist_right)
  qed
next
  case (New ps)
  then have "render q (Quoted t) \<in> set (map (render q) ps)" by force
  then show ?case using sublist_concat_member by fastforce
next
  case (FlagParsingError e f)
  then show ?case by simp
qed

lemma buffered:
  "cmd_stderr (ContainerID_cmd n) = Buffer" "cmd_stderr (InspectNetwork_cmd n) = Buffer"
  "cmd_stderr (ConnectToNetwork_cmd i n) = Buffer" "cmd_stderr (CreateNetwork_cmd n d a) = Buffer"
  "cmd_stderr (InspectContainers_cmd ids) = Buffer" "cmd_stderr (Copy_cmd x y z) = Buffer"
  "cmd_stderr swarmJoinToken_cmd = Buffer" "cmd_stderr (SwarmInit_cmd ift) = Buffer"
  "cmd_stderr SwarmLeave_cmd = Buffer"
  by (simp_all add: ContainerID_cmd_def InspectNetwork_cmd_def ConnectToNetwork_cmd_def
      CreateNetwork_cmd_def InspectContainers_cmd_def Copy_cmd_def swarmJoinToken_cmd_def
      SwarmInit_cmd_def SwarmLeave_cmd_def Let_def)

lemma ContainerID_reports:
  "stderr_reported s tr ((ContainerID_cmd n)\<lparr>cmd_stdout := Buffer\<rparr>) (map_prod err_of id (ContainerID s n tr))"
  by (simp add: stderr_reported_def ContainerID_def Output_def Run_def Let_def errOutput_def
      buffered err_of_def split: option.splits)

lemma InspectNetwork_reports:
  "stderr_reported s tr ((InspectNetwork_cmd n)\<lparr>cmd_stdout := Buffer\<rparr>) (map_prod err_of id (InspectNetwork s n tr))"
  by (simp add: stderr_reported_def InspectNetwork_def Output_def Run_def Let_def errOutput_def
      buffered err_of_def split: option.splits)

lemma ConnectToNetwork_reports:
  "stderr_reported s tr (ConnectToNetwork_cmd i n) (ConnectToNetwork s i n tr)"
  by (simp add: stderr_reported_def ConnectToNetwork_def Run_def Let_def errOutput_def
      buffered split: option.splits)

lemma CreateNetwork_reports:
  "stderr_reported s tr (CreateNetwork_cmd n d a) (CreateNetwork s n d a tr)"
  by (simp add: stderr_reported_def CreateNetwork_def Run_def Let_def errOutput_def
      buffered split: option.splits)

lemma InspectContainers_reports:
  "stderr_reported s tr ((InspectContainers_cmd ids)\<lparr>cmd_stdout := Buffer\<rparr>)
     (map_prod err_of id (InspectContainers s ids tr))"
  by (simp add: stderr_reported_def InspectContainers_def Output_def Run_def Let_def errOutput_def
      buffered err_of_def split: option.splits)

lemma Copy_reports:
  "stderr_reported s tr (Copy_cmd x y z) (Copy s x y z tr)"
  by (simp add: stderr_reported_def Copy_def Run_def Let_def errOutput_def
      buffered split: option.splits)

lemma swarmJoinToken_reports:
  "stderr_reported s tr (swarmJoinToken_cmd\<lparr>cmd_stdout := Buffer\<rparr>) (map_prod err_of id (swarmJoinToken s tr))"
  by (simp add: stderr_reported_def swarmJoinToken_def Output_def Run_def Let_def errOutput_def
      buffered err_of_def split: option.splits)

lemma SwarmInit_reports:
  "stderr_reported s tr (SwarmInit_cmd ift) (map_prod err_of id (SwarmInit s ift tr))"
  by (simp add: stderr_reported_def SwarmInit_def Run_def Let_def errOutput_def
      buffered err_of_def split: option.splits)

lemma SwarmInit_then_token:
  "exit_err (host s tr (SwarmInit_cmd ift)) = None \<Longrightarrow>
   SwarmInit s ift tr = swarmJoinToken s (tr @ [E_exec (SwarmInit_cmd ift)])"
  by (simp add: SwarmInit_def Run_def Let_def split: prod.splits sum.splits)

lemma SwarmLeave_reports:
  "stderr_reported s tr SwarmLeave_cmd (SwarmLeave s tr)"
  by (simp add: stderr_reported_def SwarmLeave_def Run_def Let_def errOutput_def
      buffered split: option.splits)

lemma Pull_result:
  "cmd_stderr (Pull_cmd s img) = (if IsDebugMode s then Console else Unset)"
  "Pull s img tr =
     (map_option (\<lambda>m. Wrap [Lit ''running docker command failed''] (Base m))
        (exit_err (host s tr (Pull_cmd s img))), tr @ [E_exec (Pull_cmd s img)])"
  by (simp_all add: Pull_def Pull_cmd_def Run_def Let_def docker_def split: option.splits)

lemma SwarmStackDown_result:
  "cmd_stderr (SwarmStackDown_cmd s name) = (if IsDebugMode s then Console else Unset)"
  "SwarmStackDown s name tr =
     (map_option Base (exit_err (host s tr (SwarmStackDown_cmd s name))),
      tr @ [E_exec (SwarmStackDown_cmd s name)])"
  by (simp_all add: SwarmStackDown_def SwarmStackDown_cmd_def Run_def Let_def docker_def)

text \<open>
  C4, as the code has it. Every command of the package but those of \<open>Pull\<close> and
  \<open>SwarmStackDown\<close> has a buffer attached to its standard error, and when the command
  fails the call ends with an error that carries what the command wrote there, printed
  with \<open>%q\<close>: the text of the error holds the quoted text. \<open>SwarmInit\<close> runs a second
  command, that of \<open>swarmJoinToken\<close>, when the first succeeds. \<open>Pull\<close> and
  \<open>SwarmStackDown\<close> attach no buffer: standard error goes to the console in debug mode
  and nowhere otherwise, and their errors are made of the exit error alone.
\<close>

theorem docker_stderr_reported:
  "stderr_reported s tr ((ContainerID_cmd n)\<lparr>cmd_stdout := Buffer\<rparr>) (map_prod err_of id (ContainerID s n tr))
   \<and> stderr_reported s tr ((InspectNetwork_cmd n)\<lparr>cmd_stdout := Buffer\<rparr>)
         (map_prod err_of id (InspectNetwork s n tr))
   \<and> stderr_reported s tr (ConnectToNetwork_cmd i n) (ConnectToNetwork s i n tr)
   \<and> stderr_reported s tr (CreateNetwork_cmd n d a) (CreateNetwork s n d a tr)
   \<and> stderr_reported s tr ((InspectContainers_cmd ids)\<lparr>cmd_stdout := Buffer\<rparr>)
         (map_prod err_of id (InspectContainers s ids tr))
   \<and> stderr_reported s tr (Copy_cmd x y z) (Copy s x y z tr)
   \<and> stderr_reported s tr (swarmJoinToken_cmd\<lparr>cmd_stdout := Buffer\<rparr>)
         (map_prod err_of id (swarmJoinToken s tr))
   \<and> stderr_reported s tr (SwarmInit_cmd ift) (map_prod err_of id (SwarmInit s ift tr))
   \<and> (exit_err (host s tr (SwarmInit_cmd ift)) = None \<longrightarrow>
        SwarmInit s ift tr = swarmJoinToken s (tr @ [E_exec (SwarmInit_cmd ift)]))
   \<and> stderr_reported s tr SwarmLeave_cmd (SwarmLeave s tr)
   \<and> (carries e t \<longrightarrow> sublist (q t) (error_text q e))
   \<and> cmd_stderr (Pull_cmd s img) = (if IsDebugMode s then Console else Unset)
   \<and> Pull s img tr =
        (map_option (\<lambda>m. Wrap [Lit ''running docker command failed''] (Base m))
           (exit_err (host s tr (Pull_cmd s img))), tr @ [E_exec (Pull_cmd s img)])
   \<and> cmd_stderr (SwarmStackDown_cmd s name) = (if IsDebugMode s then Console else Unset)
   \<and> SwarmStackDown s name tr =
        (map_option Base (exit_err (host s tr (SwarmStackDown_cmd s name))),
         tr @ [E_exec (SwarmStackDown_cmd s name)])"
  by (intro conjI impI ContainerID_reports InspectNetwork_reports ConnectToNetwork_reports
      CreateNetwork_reports InspectContainers_reports Copy_reports swarmJoinToken_reports
      SwarmInit_reports SwarmInit_then_token SwarmLeave_reports carries_text
      Pull_result SwarmStackDown_result)

theorem docker_stderr_reported_witness:
  "exit_err (host (failing_sys False) [] SwarmLeave_cmd) = Some ''exit status 1''
   \<and> err (host (failing_sys False) [] SwarmLeave_cmd) = ''Cannot connect to the Docker daemon''
   \<and> cmd_stderr SwarmLeave_cmd = Buffer
   \<and> (\<exists>e. fst (SwarmLeave (failing_sys False) []) = Some e
           \<and> carries e ''Cannot connect to the Docker daemon'')"
proof -
  have f: "exit_err (host (failing_sys False) [] SwarmLeave_cmd) = Some ''exit status 1''"
    "err (host (failing_sys False) [] SwarmLeave_cmd) = ''Cannot connect to the Docker daemon''"
    by (simp_all add: failing_sys_def failing_host_def)
  have "stderr_reported (failing_sys False) [] SwarmLeave_cmd (SwarmLeave (failing_sys False) [])"
    using docker_stderr_reported [where s = "failing_sys False" and tr = "[]"] by blast
  then show ?thesis
    using f by (auto simp: stderr_reported_def split: option.splits)
qed

text \<open>
  The daemon is down and \<open>docker pull\<close> fails, writing a diagnostic to standard error.
  No buffer is attached, and the text of the error \<open>Pull\<close> returns does not hold the
  diagnostic; \<open>SwarmStackDown\<close> returns the bare exit error.
\<close>

theorem Pull_drops_stderr_counterexample:
  "Pull (failing_sys False) ''elastic/agent'' [] =
     (Some (Wrap [Lit ''running docker command failed''] (Base ''exit status 1'')),
      [E_exec \<lparr>cmd_args = [''docker'', ''pull'', ''elastic/agent''], cmd_env = None,
               cmd_stdout = Unset, cmd_stderr = Unset\<rparr>])
   \<and> err (host (failing_sys False) [] (Pull_cmd (failing_sys False) ''elastic/agent''))
        = ''Cannot connect to the Docker daemon''
   \<and> error_text (\<lambda>t. t) (Wrap [Lit ''running docker command failed''] (Base ''exit status 1''))
        = ''running docker command failed: exit status 1''
   \<and> \<not> sublist ''Cannot connect to the Docker daemon'' ''running docker command failed: exit status 1''
   \<and> SwarmStackDown (failing_sys True) ''elastic'' [] =
     (Some (Base ''exit status 1''),
      [E_exec \<lparr>cmd_args = [''docker'', ''stack'', ''rm'', ''elastic''], cmd_env = None,
               cmd_stdout = Console, cmd_stderr = Console\<rparr>])"
  by (simp add: Pull_def Pull_cmd_def SwarmStackDown_def SwarmStackDown_cmd_def Run_def Let_def
      docker_def failing_sys_def failing_host_def sublist_Cons_right prefix_Cons)

end
